theory Spec2Isabelle
  imports Main "HOL-Library.Sublist" "HOL-Library.Char_ord"
begin

section \<open>JavaScript values used by the monitor\<close>

text \<open>
  A rejected promise or a thrown exception is the left summand of a sum; the value of a
  call that settles normally is the right one.  Every call of an external collaborator
  (file system, workspace API, classification backend) is taken to settle, with a value
  or with an error.
\<close>

datatype js_error = TypeError | RangeError | SyntaxError | IOError | ApiError

type_synonym 'a res = "js_error + 'a"

text \<open>
  \<^verbatim>\<open>String.prototype.toLowerCase\<close> on the ASCII range; strings are byte lists, and
  bytes outside \<open>A..Z\<close> are left as they are.
\<close>

definition lower_char :: "char \<Rightarrow> char" where
  "lower_char c =
     (if CHR ''A'' \<le> c \<and> c \<le> CHR ''Z'' then char_of (of_char c + (32::nat)) else c)"

definition toLowerCase :: "string \<Rightarrow> string" where
  "toLowerCase s = map lower_char s"

text \<open>\<^verbatim>\<open>hay.includes(needle)\<close>: the needle occurs as a contiguous run of the hay.\<close>

fun js_includes :: "string \<Rightarrow> string \<Rightarrow> bool" where
  "js_includes [] n = (n = [])"
| "js_includes (c # cs) n = (prefix n (c # cs) \<or> js_includes cs n)"

text \<open>
  \<^verbatim>\<open>Array.from(new Set(xs))\<close> and \<^verbatim>\<open>[...new Set(xs)]\<close>: a Set keeps the first
  insertion of each element, in insertion order.
\<close>

definition js_set_of :: "'a list \<Rightarrow> 'a list" where
  "js_set_of xs = rev (remdups (rev xs))"

text \<open>
  A plain object used as a dictionary inherits from \<^verbatim>\<open>Object.prototype\<close>: a key that is
  not an own property and is one of these names reads the inherited member (a function,
  or the prototype itself for \<^verbatim>\<open>__proto__\<close>), which is truthy and is no array.
\<close>

definition proto_member :: "string \<Rightarrow> bool" where
  "proto_member k \<longleftrightarrow> k \<in> set [''constructor'', ''__defineGetter__'', ''__defineSetter__'',
     ''hasOwnProperty'', ''__lookupGetter__'', ''__lookupSetter__'', ''isPrototypeOf'',
     ''propertyIsEnumerable'', ''toString'', ''valueOf'', ''__proto__'', ''toLocaleString'']"

section \<open>StateManager (persistence)\<close>

text \<open>
  \<^verbatim>\<open>MonitorState\<close>: the ISO string of the last run and, per channel id, the array of
  processed post ids.  The map holds the own properties of the object
  \<^verbatim>\<open>processedPosts\<close>.
\<close>

record MonitorState =
  lastRun :: string
  processedPosts :: "string \<rightharpoonup> string list"

text \<open>
  The field \<^verbatim>\<open>this.state\<close>.  \<^verbatim>\<open>JSON.parse(data) as MonitorState\<close> checks nothing, so the
  field holds what the text of the record denotes: a value of the declared shape
  (\<open>State\<close>); \<^verbatim>\<open>null\<close> (\<open>IsNull\<close>); or a value other than \<^verbatim>\<open>null\<close> whose
  \<^verbatim>\<open>processedPosts\<close> is \<^verbatim>\<open>undefined\<close> or \<^verbatim>\<open>null\<close> (\<open>NoPosts\<close>: for example \<^verbatim>\<open>{}\<close>, an
  array, a number).  A value whose \<^verbatim>\<open>processedPosts\<close> is there but holds something else
  than arrays of strings has no counterpart in this type.
\<close>

datatype js_state = State MonitorState | NoPosts | IsNull

text \<open>
  The module constant \<^verbatim>\<open>DEFAULT_STATE\<close> as the module initialises it; its \<^verbatim>\<open>lastRun\<close>
  is the time at which the module was loaded, the argument here.  \<^verbatim>\<open>loadState\<close> returns
  a spread copy of the constant: the copy has its own \<^verbatim>\<open>lastRun\<close> and shares the object
  \<^verbatim>\<open>processedPosts\<close> with the constant.  So \<^verbatim>\<open>loadState\<close> takes the constant as it is
  at the time of the call, and \<open>DEFAULT_STATE_after\<close> gives the constant when a manager
  that loaded it (\<open>shared\<close>) has come to the given state; the process has one manager
  at a time.
\<close>

definition DEFAULT_STATE :: "string \<Rightarrow> MonitorState" where
  "DEFAULT_STATE boot = \<lparr> lastRun = boot, processedPosts = Map.empty \<rparr>"

definition DEFAULT_STATE_after :: "MonitorState \<Rightarrow> bool \<Rightarrow> js_state \<Rightarrow> MonitorState" where
  "DEFAULT_STATE_after dflt shared s =
     (case s of
        State st \<Rightarrow> if shared then dflt\<lparr>processedPosts := processedPosts st\<rparr> else dflt
      | NoPosts \<Rightarrow> dflt
      | IsNull \<Rightarrow> dflt)"

text \<open>
  The backing record as \<^verbatim>\<open>loadState\<close> meets it: \<^verbatim>\<open>fs.existsSync\<close> answers
  whether it is there, \<^verbatim>\<open>fs.readFileSync\<close> returns its text or throws, and
  \<^verbatim>\<open>JSON.parse\<close> returns the value the text denotes or throws.  The parser is a
  parameter.
\<close>

datatype backing = Absent | Unreadable js_error | Content string

text \<open>
  The \<^verbatim>\<open>try\<close> block of \<^verbatim>\<open>loadState\<close>: \<open>Inr (Some v)\<close> when it returns the parsed
  value, \<open>Inr None\<close> when it falls through (no file), \<open>Inl e\<close> when it throws.
\<close>

definition loadState_try :: "(string \<Rightarrow> js_state res) \<Rightarrow> backing \<Rightarrow> js_state option res" where
  "loadState_try parse b =
     (case b of
        Absent \<Rightarrow> Inr None
      | Unreadable e \<Rightarrow> Inl e
      | Content data \<Rightarrow> (case parse data of Inl e \<Rightarrow> Inl e | Inr v \<Rightarrow> Inr (Some v)))"

text \<open>
  \<^verbatim>\<open>loadState\<close>: the value of \<^verbatim>\<open>this.state\<close>, whether it is the copy of the constant,
  and the lines written by \<^verbatim>\<open>console.error\<close> (one per caught error).  The \<^verbatim>\<open>catch\<close>
  takes every error, so the function itself returns.
\<close>

definition loadState :: "MonitorState \<Rightarrow> (string \<Rightarrow> js_state res) \<Rightarrow> backing
    \<Rightarrow> js_state \<times> bool \<times> js_error list" where
  "loadState dflt parse b =
     (case loadState_try parse b of
        Inr (Some v) \<Rightarrow> (v, False, [])
      | Inr None \<Rightarrow> (State dflt, True, [])
      | Inl e \<Rightarrow> (State dflt, True, [e]))"

text \<open>
  Reading \<^verbatim>\<open>processedPosts[channelId]\<close>: the own array, an inherited member of
  \<^verbatim>\<open>Object.prototype\<close>, or \<^verbatim>\<open>undefined\<close>.  \<^verbatim>\<open>v || []\<close> replaces \<^verbatim>\<open>undefined\<close> by the
  empty array (an array, also an empty one, is truthy).  \<^verbatim>\<open>v.includes(x)\<close> is a call of
  \<^verbatim>\<open>undefined\<close> on an inherited member and throws a \<^verbatim>\<open>TypeError\<close>.
\<close>

datatype property = Own "string list" | Inherited | Undefined

definition get_property :: "(string \<rightharpoonup> string list) \<Rightarrow> string \<Rightarrow> property" where
  "get_property obj key =
     (case obj key of
        Some ids \<Rightarrow> Own ids
      | None \<Rightarrow> if proto_member key then Inherited else Undefined)"

definition or_empty :: "property \<Rightarrow> property" where
  "or_empty v = (case v of Own ids \<Rightarrow> Own ids | Inherited \<Rightarrow> Inherited | Undefined \<Rightarrow> Own [])"

definition array_includes :: "property \<Rightarrow> string \<Rightarrow> bool res" where
  "array_includes v x =
     (case v of Own ids \<Rightarrow> Inr (x \<in> set ids) | Inherited \<Rightarrow> Inl TypeError | Undefined \<Rightarrow> Inl TypeError)"

text \<open>
  \<^verbatim>\<open>getProcessedPostIds\<close>: \<^verbatim>\<open>this.state.processedPosts[channelId] || []\<close>.  Reading a
  property of \<^verbatim>\<open>null\<close> or \<^verbatim>\<open>undefined\<close> throws a \<^verbatim>\<open>TypeError\<close>.
\<close>

definition getProcessedPostIds :: "js_state \<Rightarrow> string \<Rightarrow> property res" where
  "getProcessedPostIds s channelId =
     (case s of
        State st \<Rightarrow> Inr (or_empty (get_property (processedPosts st) channelId))
      | NoPosts \<Rightarrow> Inl TypeError
      | IsNull \<Rightarrow> Inl TypeError)"

definition isPostProcessed :: "js_state \<Rightarrow> string \<Rightarrow> string \<Rightarrow> bool res" where
  "isPostProcessed s channelId postId =
     (case s of
        State st \<Rightarrow>
          (let channelPosts = or_empty (get_property (processedPosts st) channelId)
           in array_includes channelPosts postId)
      | NoPosts \<Rightarrow> Inl TypeError
      | IsNull \<Rightarrow> Inl TypeError)"

text \<open>
  \<^verbatim>\<open>markPostProcessed\<close>: create the channel's array when the value read is falsy
  (\<^verbatim>\<open>undefined\<close>), then push the id unless \<^verbatim>\<open>isPostProcessed\<close> says it is there.  When
  it throws (\<open>Inl\<close>), nothing has been written: an array is created only where
  \<^verbatim>\<open>isPostProcessed\<close> then answers.
\<close>

definition markPostProcessed :: "js_state \<Rightarrow> string \<Rightarrow> string \<Rightarrow> js_state res" where
  "markPostProcessed s channelId postId =
     (case s of
        NoPosts \<Rightarrow> Inl TypeError
      | IsNull \<Rightarrow> Inl TypeError
      | State st \<Rightarrow>
          (let st1 = (case get_property (processedPosts st) channelId of
                        Undefined \<Rightarrow> st\<lparr>processedPosts := (processedPosts st)(channelId \<mapsto> [])\<rparr>
                      | Own ids \<Rightarrow> st
                      | Inherited \<Rightarrow> st)
           in case isPostProcessed (State st1) channelId postId of
                Inl e \<Rightarrow> Inl e
              | Inr True \<Rightarrow> Inr (State st1)
              | Inr False \<Rightarrow>
                  (case get_property (processedPosts st1) channelId of
                     Own ids \<Rightarrow>
                       Inr (State (st1\<lparr>processedPosts := (processedPosts st1)(channelId \<mapsto> ids @ [postId])\<rparr>))
                   | Inherited \<Rightarrow> Inl TypeError
                   | Undefined \<Rightarrow> Inl TypeError)))"

text \<open>
  \<^verbatim>\<open>markPostsProcessed\<close>, and likewise the loop of \<^verbatim>\<open>analyzeChannel\<close> over the
  candidates: the state when the loop ends, and the error that ended it, if any.
\<close>

fun markPostsProcessed :: "js_state \<Rightarrow> string \<Rightarrow> string list \<Rightarrow> js_state \<times> js_error option" where
  "markPostsProcessed s channelId [] = (s, None)"
| "markPostsProcessed s channelId (postId # postIds) =
     (case markPostProcessed s channelId postId of
        Inl e \<Rightarrow> (s, Some e)
      | Inr s' \<Rightarrow> markPostsProcessed s' channelId postIds)"

text \<open>
  \<^verbatim>\<open>saveState\<close>, all of it inside one \<^verbatim>\<open>try\<close>: make the directory, set
  \<^verbatim>\<open>lastRun\<close> to the current time, write the file.  When \<^verbatim>\<open>mkdirSync\<close> throws,
  \<^verbatim>\<open>lastRun\<close> is not reached; when \<^verbatim>\<open>writeFileSync\<close> throws, it has been set.  On
  \<^verbatim>\<open>null\<close> the assignment throws and is caught; a value without \<^verbatim>\<open>processedPosts\<close>
  stays one.  The file is not part of the model.
\<close>

datatype fs_outcome = MkdirFails | WriteFails | Written

definition saveState :: "fs_outcome \<Rightarrow> string \<Rightarrow> js_state \<Rightarrow> js_state" where
  "saveState fs now s =
     (case s of
        State st \<Rightarrow>
          (case fs of
             MkdirFails \<Rightarrow> State st
           | WriteFails \<Rightarrow> State (st\<lparr>lastRun := now\<rparr>)
           | Written \<Rightarrow> State (st\<lparr>lastRun := now\<rparr>))
      | NoPosts \<Rightarrow> NoPosts
      | IsNull \<Rightarrow> IsNull)"

text \<open>
  \<^verbatim>\<open>getLastRun\<close> returns \<^verbatim>\<open>new Date(this.state.lastRun)\<close>: a Date object, valid or not
  (\<open>None\<close> where \<^verbatim>\<open>lastRun\<close> is whatever the unchecked value holds there); on \<^verbatim>\<open>null\<close>
  the read throws.
\<close>

datatype js_date = Date "string option"

definition getLastRun :: "js_state \<Rightarrow> js_date res" where
  "getLastRun s =
     (case s of
        State st \<Rightarrow> Inr (Date (Some (lastRun st)))
      | NoPosts \<Rightarrow> Inr (Date None)
      | IsNull \<Rightarrow> Inl TypeError)"

section \<open>MessageAnalyzer\<close>

text \<open>
  The fields of \<^verbatim>\<open>Post\<close> and \<^verbatim>\<open>Channel\<close> that the monitor reads.  The field
  \<^verbatim>\<open>id\<close> is \<open>post_id\<close> and \<open>channel_id\<close> here.  \<^verbatim>\<open>enrichPostsWithUserInfo\<close>
  attaches \<^verbatim>\<open>user_info\<close> to each post and catches every error per post; the attribute
  is read only when the prompt is written, so it is not part of the model.
\<close>

record Post =
  post_id :: string
  user_id :: string
  message :: string
  create_at :: int

record Channel =
  channel_id :: string
  channel_name :: string
  channel_type :: string

record AnalysisResult =
  channelId :: string
  channelName :: string
  posts :: "Post list"
  relevantTopics :: "string list"

text \<open>\<^verbatim>\<open>LlmAnalysisResult\<close>; its field \<^verbatim>\<open>relevantTopics\<close> is \<open>llmTopics\<close> here.\<close>

record LlmAnalysisResult =
  relevantPosts :: "Post list"
  llmTopics :: "string list"

record LlmConfig =
  apiKey :: string
  model :: string
  maxTokens :: int

subsection \<open>Fallback policy: \<^verbatim>\<open>fallbackAnalysis\<close>\<close>

text \<open>
  For each post, the first topic whose lower-cased label occurs in the lower-cased
  message makes the post relevant (\<^verbatim>\<open>break\<close>), and the topic is added to the Set.
\<close>

fun fallback_loop :: "Post list \<Rightarrow> string list \<Rightarrow> Post list \<Rightarrow> string list \<Rightarrow> Post list \<times> string list" where
  "fallback_loop [] topics rp rt = (rp, rt)"
| "fallback_loop (post # rest) topics rp rt =
     (case find (\<lambda>topic. js_includes (toLowerCase (message post)) (toLowerCase topic)) topics of
        None \<Rightarrow> fallback_loop rest topics rp rt
      | Some topic \<Rightarrow>
          fallback_loop rest topics (rp @ [post]) (if topic \<in> set rt then rt else rt @ [topic]))"

definition fallbackAnalysis :: "Post list \<Rightarrow> string list \<Rightarrow> LlmAnalysisResult" where
  "fallbackAnalysis ps topics =
     (case fallback_loop ps topics [] [] of
        (rp, rt) \<Rightarrow> \<lparr> relevantPosts = rp, llmTopics = rt \<rparr>)"

subsection \<open>Primary policy: reading the backend's reply\<close>

text \<open>
  \<^verbatim>\<open>content.matchAll(/"([a-z0-9]{26})"/g)\<close>, mapped to group 1: scanning from the left,
  a double quote, 26 characters of \<open>a..z\<close>, \<open>0..9\<close>, and a double quote; the search
  goes on after the closing quote of a match.
\<close>

definition id_char :: "char \<Rightarrow> bool" where
  "id_char c \<longleftrightarrow> (CHR ''a'' \<le> c \<and> c \<le> CHR ''z'') \<or> (CHR ''0'' \<le> c \<and> c \<le> CHR ''9'')"

fun scan_ids :: "string \<Rightarrow> string list" where
  "scan_ids [] = []"
| "scan_ids (c # cs) =
     (if c = CHR 0x22 \<and> 27 \<le> length cs \<and> list_all id_char (take 26 cs) \<and> cs ! 26 = CHR 0x22
      then take 26 cs # scan_ids (drop 27 cs)
      else scan_ids cs)"

text \<open>
  The topic expression \<^verbatim>\<open>new RegExp(`"${topic}"\\s*:\\s*\\[(.*?)\\]`, 'i')\<close> puts the
  label into the pattern as it is.  For an ASCII label without a character of the
  pattern syntax, matched against an ASCII text, the pattern is: the quoted label
  (letters in either case), white space, a colon, white space, an opening bracket,
  the shortest run of characters other than line terminators (group 1), a closing
  bracket; \<^verbatim>\<open>content.match\<close> takes the leftmost position where all of it matches.
\<close>

definition is_space :: "char \<Rightarrow> bool" where
  "is_space c \<longleftrightarrow> c = CHR 0x20 \<or> c = CHR 0x09 \<or> c = CHR 0x0A \<or> c = CHR 0x0B \<or> c = CHR 0x0C \<or> c = CHR 0x0D"

definition line_terminator :: "char \<Rightarrow> bool" where
  "line_terminator c \<longleftrightarrow> c = CHR 0x0A \<or> c = CHR 0x0D"

fun strip_prefix_ci :: "string \<Rightarrow> string \<Rightarrow> string option" where
  "strip_prefix_ci [] s = Some s"
| "strip_prefix_ci (p # ps) [] = None"
| "strip_prefix_ci (p # ps) (c # cs) =
     (if lower_char p = lower_char c then strip_prefix_ci ps cs else None)"

definition expect_char :: "char \<Rightarrow> string \<Rightarrow> string option" where
  "expect_char c s = (case s of [] \<Rightarrow> None | d # r \<Rightarrow> if d = c then Some r else None)"

definition match_here :: "string \<Rightarrow> string \<Rightarrow> string option" where
  "match_here topic s =
     (case strip_prefix_ci ([CHR 0x22] @ topic @ [CHR 0x22]) s of
        None \<Rightarrow> None
      | Some r1 \<Rightarrow>
          (case expect_char CHR '':'' (dropWhile is_space r1) of
             None \<Rightarrow> None
           | Some r2 \<Rightarrow>
               (case expect_char CHR ''['' (dropWhile is_space r2) of
                  None \<Rightarrow> None
                | Some r3 \<Rightarrow>
                    (let g = takeWhile (\<lambda>x. x \<noteq> CHR '']'' \<and> \<not> line_terminator x) r3
                     in case expect_char CHR '']'' (drop (length g) r3) of
                          None \<Rightarrow> None
                        | Some _ \<Rightarrow> Some g))))"

fun first_match :: "string \<Rightarrow> string \<Rightarrow> string option" where
  "first_match topic [] = match_here topic []"
| "first_match topic (c # cs) =
     (case match_here topic (c # cs) of Some g \<Rightarrow> Some g | None \<Rightarrow> first_match topic cs)"

definition regex_syntax_char :: "char \<Rightarrow> bool" where
  "regex_syntax_char c \<longleftrightarrow> c \<in> set (CHR 0x5C # ''^$.|?*+()[]{}'')"

definition ascii :: "string \<Rightarrow> bool" where
  "ascii s \<longleftrightarrow> list_all (\<lambda>c. c < CHR 0x80) s"

definition plain_label :: "string \<Rightarrow> bool" where
  "plain_label topic \<longleftrightarrow> ascii topic \<and> \<not> list_ex regex_syntax_char topic"

text \<open>
  What is outside this repository is a parameter of the classification:
  \<^item> \<open>llm_response\<close>: the text of the first content block of the backend's reply, or the
    error thrown while the request was made or the reply was read;
  \<^item> \<open>regex_engine topic content\<close>: \<^verbatim>\<open>topicMatch[1]\<close> as the regular-expression engine
    gives it where the label or the text is not plain (\<open>None\<close> for no match or no
    group), or the \<^verbatim>\<open>SyntaxError\<close> of \<^verbatim>\<open>new RegExp\<close>;
  \<^item> \<open>proto_entries\<close>: the own entries of \<^verbatim>\<open>result.topics\<close> after the tie-break loop
    in the one case where the loop over the topics has replaced the object's prototype
    (an assignment to the key \<^verbatim>\<open>__proto__\<close>), or the error thrown there.
\<close>

record backend =
  llm_response :: "string res"
  regex_engine :: "string \<Rightarrow> string \<Rightarrow> string option res"
  proto_entries :: "(string \<times> string list) list res"

definition topicMatch :: "backend \<Rightarrow> string \<Rightarrow> string \<Rightarrow> string option res" where
  "topicMatch be topic content =
     (if plain_label topic \<and> ascii content then Inr (first_match topic content)
      else regex_engine be topic content)"

text \<open>
  \<^verbatim>\<open>result.topics\<close> is a JavaScript object used as a dictionary: an association list
  in creation order of its own keys.  A key that is a member name of
  \<^verbatim>\<open>Object.prototype\<close> (\<open>proto_member\<close>) is found there when the object has no own
  property of that name.
\<close>

fun js_assign :: "(string \<times> 'a) list \<Rightarrow> string \<Rightarrow> 'a \<Rightarrow> (string \<times> 'a) list" where
  "js_assign [] k v = [(k, v)]"
| "js_assign ((k', v') # al) k v = (if k' = k then (k, v) # al else (k', v') # js_assign al k v)"

text \<open>
  \<^verbatim>\<open>Object.entries\<close>: the own keys that are array indices (canonical decimal numerals
  below \<open>2^32 - 1\<close>) in ascending order, then the other keys in creation order.
\<close>

definition digit_char :: "char \<Rightarrow> bool" where
  "digit_char c \<longleftrightarrow> CHR ''0'' \<le> c \<and> c \<le> CHR ''9''"

definition nat_of_digits :: "string \<Rightarrow> nat" where
  "nat_of_digits s = foldl (\<lambda>n c. 10 * n + (of_char c - 48)) 0 s"

definition array_index :: "string \<Rightarrow> bool" where
  "array_index k \<longleftrightarrow> k \<noteq> [] \<and> list_all digit_char k \<and> (k = ''0'' \<or> hd k \<noteq> CHR ''0'')
     \<and> nat_of_digits k < 4294967295"

definition js_entries :: "(string \<times> 'a) list \<Rightarrow> (string \<times> 'a) list" where
  "js_entries al =
     sort_key (\<lambda>e. nat_of_digits (fst e)) (filter (\<lambda>e. array_index (fst e)) al)
     @ filter (\<lambda>e. \<not> array_index (fst e)) al"

text \<open>
  The loop over the topics (``try to extract topic-specific post IDs'').  The result is
  the own entries of \<^verbatim>\<open>result.topics\<close> and whether the prototype has been replaced;
  the attribute \<^verbatim>\<open>relevantTopics\<close> written to the posts is read nowhere.
\<close>

fun topic_loop :: "backend \<Rightarrow> string \<Rightarrow> string list \<Rightarrow> (string \<times> string list) list \<times> bool
    \<Rightarrow> ((string \<times> string list) list \<times> bool) res" where
  "topic_loop be content [] acc = Inr acc"
| "topic_loop be content (topic # rest) (al, pr) =
     (case topicMatch be topic content of
        Inl e \<Rightarrow> Inl e
      | Inr None \<Rightarrow> topic_loop be content rest (al, pr)
      | Inr (Some g) \<Rightarrow>
          (if g = [] then topic_loop be content rest (al, pr)
           else let topicPostIds = scan_ids g in
             if topicPostIds = [] then topic_loop be content rest (al, pr)
             else if topic = ''__proto__'' then topic_loop be content rest (al, True)
             else topic_loop be content rest (js_assign al topic topicPostIds, pr)))"

text \<open>
  The tie-break (``if no topic-specific matches, use all post IDs for all topics''),
  entered with no own key.  For a label that is a member name of
  \<^verbatim>\<open>Object.prototype\<close> the value read is inherited and truthy, no array is created,
  and the call of its \<^verbatim>\<open>push\<close> throws a \<^verbatim>\<open>TypeError\<close>.
\<close>

definition push_id :: "(string \<times> string list) list \<Rightarrow> string \<Rightarrow> string \<Rightarrow> (string \<times> string list) list" where
  "push_id al topic pid =
     (case map_of al topic of
        None \<Rightarrow> js_assign al topic [pid]
      | Some ids \<Rightarrow> (if ids = [] then js_assign al topic [pid] else js_assign al topic (ids @ [pid])))"

fun push_topics :: "(string \<times> string list) list \<Rightarrow> string \<Rightarrow> string list \<Rightarrow> (string \<times> string list) list res" where
  "push_topics al pid [] = Inr al"
| "push_topics al pid (topic # rest) =
     (if proto_member topic then Inl TypeError
      else push_topics (push_id al topic pid) pid rest)"

fun tie_break :: "(string \<times> string list) list \<Rightarrow> Post list \<Rightarrow> string list \<Rightarrow> string list
    \<Rightarrow> (string \<times> string list) list res" where
  "tie_break al [] topics allPostIds = Inr al"
| "tie_break al (post # rest) topics allPostIds =
     (if post_id post \<in> set allPostIds
      then (case push_topics al (post_id post) topics of
              Inl e \<Rightarrow> Inl e
            | Inr al' \<Rightarrow> tie_break al' rest topics allPostIds)
      else tie_break al rest topics allPostIds)"

text \<open>
  \<^verbatim>\<open>new Date(post.create_at).toISOString()\<close> throws a \<^verbatim>\<open>RangeError\<close> outside the
  range of time values.
\<close>

definition valid_time :: "int \<Rightarrow> bool" where
  "valid_time t \<longleftrightarrow> - 8640000000000000 \<le> t \<and> t \<le> 8640000000000000"

text \<open>The \<^verbatim>\<open>try\<close> block of \<^verbatim>\<open>analyzePostsWithLLM\<close>.\<close>

definition llm_try :: "backend \<Rightarrow> Post list \<Rightarrow> string list \<Rightarrow> LlmAnalysisResult res" where
  "llm_try be ps topics =
     (if list_ex (\<lambda>post. \<not> valid_time (create_at post)) ps then Inl RangeError
      else case llm_response be of
        Inl e \<Rightarrow> Inl e
      | Inr content \<Rightarrow>
          (let allPostIds = scan_ids content in
           case topic_loop be content topics ([], False) of
             Inl e \<Rightarrow> Inl e
           | Inr (al, pr) \<Rightarrow>
               (case (if al = [] \<and> allPostIds \<noteq> []
                      then (if pr \<and> list_ex (\<lambda>post. post_id post \<in> set allPostIds) ps \<and> topics \<noteq> []
                            then proto_entries be
                            else tie_break al ps topics allPostIds)
                      else Inr al) of
                  Inl e \<Rightarrow> Inl e
                | Inr al' \<Rightarrow>
                    (let hits = filter (\<lambda>e. snd e \<noteq> []) (js_entries al');
                         relevantPostIds = concat (map snd hits)
                     in Inr \<lparr> relevantPosts = filter (\<lambda>post. post_id post \<in> set relevantPostIds) ps,
                              llmTopics = js_set_of (map fst hits) \<rparr>))))"

definition analyzePostsWithLLM :: "LlmConfig option \<Rightarrow> backend \<Rightarrow> Post list \<Rightarrow> string list \<Rightarrow> LlmAnalysisResult" where
  "analyzePostsWithLLM llmConfig be ps topics =
     (if llmConfig = None \<or> ps = [] then fallbackAnalysis ps topics
      else case llm_try be ps topics of
        Inl e \<Rightarrow> fallbackAnalysis ps topics
      | Inr r \<Rightarrow> r)"

subsection \<open>The keyword analyzer: \<^verbatim>\<open>analyzeWithLLM\<close> with its dictionary\<close>

text \<open>
  The analyzer without a backend classifies one message at a time.  Its dictionary of
  related terms has one entry.  \<^verbatim>\<open>topicDictionary[topic.toLowerCase()] || []\<close> reads an
  own key, or a member of \<^verbatim>\<open>Object.prototype\<close>, which is not iterable, so that the
  \<^verbatim>\<open>for ... of\<close> over it throws a \<^verbatim>\<open>TypeError\<close>.
\<close>

definition topicDictionary :: "(string \<times> string list) list" where
  "topicDictionary =
     [(''table tennis'',
       [''ping pong'', ''paddle'', ''racket'', ''ball'', ''net'', ''table'',
        ''butterfly'', ''stiga'', ''donic'', ''yasaka'', ''tibhar'', ''joola'',
        ''rubbers'', ''blade'', ''backhand'', ''forehand'', ''spin'', ''serve'',
        ''timo boll'', ''ma long'', ''zhang jike'', ''wang liqin'', ''liu shiwen'',
        ''dignics'', ''tenergy'', ''tournament'', ''championship'', ''ittf''])]"

definition relatedTerms :: "string \<Rightarrow> string list res" where
  "relatedTerms key =
     (case map_of topicDictionary key of
        Some terms \<Rightarrow> Inr terms
      | None \<Rightarrow> if proto_member key then Inl TypeError else Inr [])"

fun keyword_loop :: "string \<Rightarrow> string list \<Rightarrow> string list \<Rightarrow> string list res" where
  "keyword_loop lowerMessage [] matchedTopics = Inr matchedTopics"
| "keyword_loop lowerMessage (topic # rest) matchedTopics =
     (if js_includes lowerMessage (toLowerCase topic)
      then keyword_loop lowerMessage rest (matchedTopics @ [topic])
      else case relatedTerms (toLowerCase topic) of
        Inl e \<Rightarrow> Inl e
      | Inr terms \<Rightarrow>
          (let m1 = (if list_ex (\<lambda>term. js_includes lowerMessage (toLowerCase term)) terms
                     then matchedTopics @ [topic] else matchedTopics);
               m2 = (if toLowerCase topic = ''table tennis''
                        \<and> (js_includes lowerMessage ''rubber'' \<or> js_includes lowerMessage ''blade'')
                        \<and> (js_includes lowerMessage ''butterfly'' \<or> js_includes lowerMessage ''stiga''
                           \<or> js_includes lowerMessage ''donic'' \<or> js_includes lowerMessage ''yasaka''
                           \<or> js_includes lowerMessage ''tibhar'' \<or> js_includes lowerMessage ''joola'')
                     then m1 @ [topic] else m1);
               m3 = (if toLowerCase topic = ''table tennis''
                        \<and> (js_includes lowerMessage ''player'' \<or> js_includes lowerMessage ''championship''
                           \<or> js_includes lowerMessage ''tournament'' \<or> js_includes lowerMessage ''match''
                           \<or> js_includes lowerMessage ''game'')
                     then m2 @ [topic] else m2)
           in keyword_loop lowerMessage rest m3))"

definition analyzeWithLLM :: "string \<Rightarrow> string list \<Rightarrow> string list res" where
  "analyzeWithLLM msg topics =
     (case keyword_loop (toLowerCase msg) topics [] of
        Inl e \<Rightarrow> Inl e
      | Inr matchedTopics \<Rightarrow> Inr (js_set_of matchedTopics))"

subsection \<open>\<^verbatim>\<open>analyzeChannel\<close>\<close>

record MessageAnalyzer =
  topics :: "string list"
  messageLimit :: int
  llmConfig :: "LlmConfig option"

text \<open>
  The reply of \<^verbatim>\<open>getChannels\<close> is an array, or an object whose \<^verbatim>\<open>channels\<close> is an
  array (\<open>Some\<close>) or something else (\<open>None\<close>).
\<close>

datatype channels_response = ChannelArray "Channel list" | ChannelObject "Channel list option"

text \<open>
  What one call of \<^verbatim>\<open>analyzeChannel\<close> meets outside: the replies of the workspace
  (\<open>getPostsForChannel\<close> gives \<^verbatim>\<open>Object.values(postsResponse.posts)\<close>, or the error of
  the call or of a reply without \<^verbatim>\<open>posts\<close>), the backend, and the file system and
  clock of \<^verbatim>\<open>saveState\<close>.
\<close>

record call_env =
  getChannels :: "channels_response res"
  getPostsForChannel :: "string \<Rightarrow> int \<Rightarrow> Post list res"
  llm :: backend
  save_fs :: fs_outcome
  save_now :: string

text \<open>
  \<^verbatim>\<open>firstRun && firstRunLimit ? firstRunLimit : this.messageLimit\<close>; the optional
  number is truthy when it is given and not zero.
\<close>

definition fetch_limit :: "bool \<Rightarrow> int option \<Rightarrow> int \<Rightarrow> int" where
  "fetch_limit firstRun firstRunLimit msgLimit =
     (case firstRunLimit of
        None \<Rightarrow> msgLimit
      | Some n \<Rightarrow> if firstRun \<and> n \<noteq> 0 then n else msgLimit)"

text \<open>
  The candidates: \<^verbatim>\<open>getProcessedPostIds\<close>, then the filter over the fetched posts,
  whose callback calls \<^verbatim>\<open>includes\<close> once per post (so it throws on an inherited
  member only when there is a post).
\<close>

definition unprocessedPosts :: "js_state \<Rightarrow> string \<Rightarrow> Post list \<Rightarrow> Post list res" where
  "unprocessedPosts s cid fetched =
     (case getProcessedPostIds s cid of
        Inl e \<Rightarrow> Inl e
      | Inr processedPostIds \<Rightarrow>
          (case processedPostIds of
             Own ids \<Rightarrow> Inr (filter (\<lambda>post. post_id post \<notin> set ids) fetched)
           | Inherited \<Rightarrow> if fetched = [] then Inr [] else Inl TypeError
           | Undefined \<Rightarrow> if fetched = [] then Inr [] else Inl TypeError))"

definition normalize_channels :: "channels_response \<Rightarrow> Channel list" where
  "normalize_channels r =
     (case r of ChannelArray cs \<Rightarrow> cs | ChannelObject None \<Rightarrow> [] | ChannelObject (Some cs) \<Rightarrow> cs)"

text \<open>
  \<^verbatim>\<open>analyzeChannel\<close>: the state of the StateManager afterwards, the limit it asked the
  workspace for (if it came to ask), the channel id and the batch of posts it handed to
  \<^verbatim>\<open>analyzePostsWithLLM\<close> (if it came to classify), and its result (\<open>None\<close> for
  \<^verbatim>\<open>null\<close>).  Every error of the body is caught and gives \<^verbatim>\<open>null\<close>.
\<close>

definition analyzeChannel :: "MessageAnalyzer \<Rightarrow> call_env \<Rightarrow> js_state \<Rightarrow> string \<Rightarrow> bool \<Rightarrow> int option
    \<Rightarrow> js_state \<times> int option \<times> (string \<times> Post list) option \<times> AnalysisResult option" where
  "analyzeChannel an env s chName firstRun firstRunLimit =
     (case getChannels env of
        Inl e \<Rightarrow> (s, None, None, None)
      | Inr channelsResponse \<Rightarrow>
          (let chans = normalize_channels channelsResponse in
           if chans = [] then (s, None, None, None)
           else case find (\<lambda>c. channel_name c = chName) chans of
             None \<Rightarrow> (s, None, None, None)
           | Some channel \<Rightarrow>
               (let limit = fetch_limit firstRun firstRunLimit (messageLimit an) in
                case getPostsForChannel env (channel_id channel) limit of
                  Inl e \<Rightarrow> (s, Some limit, None, None)
                | Inr fetched \<Rightarrow>
                    (case unprocessedPosts s (channel_id channel) fetched of
                       Inl e \<Rightarrow> (s, Some limit, None, None)
                     | Inr unprocessed \<Rightarrow>
                         if unprocessed = [] then (s, Some limit, None, None)
                         else
                           let analysisResult =
                                 analyzePostsWithLLM (llmConfig an) (llm env) unprocessed (topics an);
                               handed = Some (channel_id channel, unprocessed)
                           in case markPostsProcessed s (channel_id channel) (map post_id unprocessed) of
                                (s1, Some e) \<Rightarrow> (s1, Some limit, handed, None)
                              | (s1, None) \<Rightarrow>
                                  (let s2 = saveState (save_fs env) (save_now env) s1
                                   in if relevantPosts analysisResult = []
                                      then (s2, Some limit, handed, None)
                                      else (s2, Some limit, handed,
                                            Some \<lparr> channelId = channel_id channel,
                                                   channelName = channel_name channel,
                                                   posts = relevantPosts analysisResult,
                                                   relevantTopics = llmTopics analysisResult \<rparr>))))))"

section \<open>TopicMonitor\<close>

text \<open>
  \<^verbatim>\<open>MonitoringConfig\<close>; the fields \<^verbatim>\<open>schedule\<close>, \<^verbatim>\<open>topics\<close> and \<^verbatim>\<open>messageLimit\<close>
  carry the prefix \<open>config_\<close> here.  \<^verbatim>\<open>firstRunLimit\<close> is \<open>None\<close> when the
  configuration file does not give it.
\<close>

record MonitoringConfig =
  enabled :: bool
  config_schedule :: string
  channels :: "string list"
  config_topics :: "string list"
  config_messageLimit :: int
  stateFilePath :: string
  processExistingOnFirstRun :: bool
  firstRunLimit :: "int option"

text \<open>
  The monitor's fields that a cycle reads or writes, with the state of its
  StateManager, and the messages it has posted (\<open>outbox\<close>: channel id and text of every
  \<^verbatim>\<open>createPost\<close> that succeeded).
\<close>

record TopicMonitor =
  config :: MonitoringConfig
  state :: js_state
  analyzer :: MessageAnalyzer
  sysadminUserId :: "string option"
  dmChannelId :: "string option"
  outbox :: "(string \<times> string) list"

text \<open>
  The constructor: the StateManager loads the state, the analyzer gets the topics and
  the limit of the configuration, and no backend configuration.
\<close>

definition new_TopicMonitor :: "MonitoringConfig \<Rightarrow> MonitorState \<Rightarrow> (string \<Rightarrow> js_state res) \<Rightarrow> backing \<Rightarrow> TopicMonitor" where
  "new_TopicMonitor cfg dflt parse b =
     \<lparr> config = cfg,
       state = fst (loadState dflt parse b),
       analyzer = \<lparr> topics = config_topics cfg, messageLimit = config_messageLimit cfg, llmConfig = None \<rparr>,
       sysadminUserId = None, dmChannelId = None, outbox = [] \<rparr>"

text \<open>
  \<^verbatim>\<open>!this.stateManager.getLastRun()\<close> negates the truth value of the Date object that
  \<^verbatim>\<open>getLastRun\<close> returns, and every object is truthy.
\<close>

fun truthy_object :: "js_date \<Rightarrow> bool" where
  "truthy_object (Date x) = True"

definition isFirstRun :: "js_state \<Rightarrow> bool res" where
  "isFirstRun s =
     (case getLastRun s of
        Inl e \<Rightarrow> Inl e
      | Inr d \<Rightarrow> Inr (\<not> truthy_object d))"

subsection \<open>\<^verbatim>\<open>sendNotification\<close>\<close>

record UserProfile =
  username :: "string option"

record notify_env =
  getUserProfile :: "string \<Rightarrow> UserProfile res"
  toLocaleString :: "int \<Rightarrow> string"
  createPost :: "string \<Rightarrow> string \<Rightarrow> unit res"

text \<open>\<^verbatim>\<open>p.username || dflt\<close>: an absent or empty name is falsy.\<close>

definition username_or :: "UserProfile res \<Rightarrow> string \<Rightarrow> string" where
  "username_or r dflt =
     (case r of
        Inl e \<Rightarrow> dflt
      | Inr p \<Rightarrow> (case username p of None \<Rightarrow> dflt | Some n \<Rightarrow> if n = [] then dflt else n))"

text \<open>The decimal numeral of a length, as a template literal prints it.\<close>

fun string_of_nat :: "nat \<Rightarrow> string" where
  "string_of_nat n =
     (if n < 10 then [char_of (48 + n)]
      else string_of_nat (n div 10) @ [char_of (48 + n mod 10)])"

declare string_of_nat.simps [simp del]

text \<open>\<^verbatim>\<open>xs.join(', ')\<close>.\<close>

fun join_comma :: "string list \<Rightarrow> string" where
  "join_comma [] = []"
| "join_comma [x] = x"
| "join_comma (x # y # ys) = x @ '', '' @ join_comma (y # ys)"

definition post_line :: "notify_env \<Rightarrow> Post \<Rightarrow> string" where
  "post_line env post =
     (let postAuthor = username_or (getUserProfile env (user_id post)) (user_id post);
          timestamp = toLocaleString env (create_at post)
      in ''- '' @ timestamp @ '' ('' @ postAuthor @ ''): '' @ [CHR 0x22] @ message post @ [CHR 0x22, CHR 0x0A])"

text \<open>
  The message is built by appending: first the lines up to ``Recent Messages'' (the
  header), then the loop \<^verbatim>\<open>for (const post of posts.slice(0, 5))\<close>, then the suffix.
\<close>

fun add_lines :: "notify_env \<Rightarrow> string \<Rightarrow> Post list \<Rightarrow> string" where
  "add_lines env msg [] = msg"
| "add_lines env msg (post # rest) = add_lines env (msg @ post_line env post) rest"

definition alert_header :: "notify_env \<Rightarrow> string \<Rightarrow> AnalysisResult \<Rightarrow> string" where
  "alert_header env uid result =
     (let uname = username_or (getUserProfile env uid) ''user'';
          m0 = ''@'' @ uname @ '' **Topic Monitor Alert**'' @ [CHR 0x0A, CHR 0x0A];
          m1 = m0 @ ''Found '' @ string_of_nat (length (posts result)) @ '' relevant posts in channel: **''
                  @ channelName result @ ''**'' @ [CHR 0x0A];
          m2 = m1 @ ''Topics: '' @ join_comma (relevantTopics result) @ [CHR 0x0A, CHR 0x0A]
      in m2 @ ''**Recent Messages:**'' @ [CHR 0x0A])"

definition compose_message :: "notify_env \<Rightarrow> string \<Rightarrow> AnalysisResult \<Rightarrow> string" where
  "compose_message env uid result =
     (let m3 = alert_header env uid result;
          m4 = add_lines env m3 (take 5 (posts result))
      in if length (posts result) > 5
         then m4 @ ''... and '' @ string_of_nat (length (posts result) - 5) @ '' more'' @ [CHR 0x0A]
         else m4)"

text \<open>
  \<^verbatim>\<open>sendNotification\<close> returns early when the delivery channel or the recipient is
  falsy (\<^verbatim>\<open>null\<close> or the empty string); an error of \<^verbatim>\<open>createPost\<close> is caught and
  logged.
\<close>

definition falsy :: "string option \<Rightarrow> bool" where
  "falsy v = (case v of None \<Rightarrow> True | Some x \<Rightarrow> x = [])"

definition sendNotification :: "notify_env \<Rightarrow> TopicMonitor \<Rightarrow> AnalysisResult \<Rightarrow> TopicMonitor" where
  "sendNotification env m result =
     (if falsy (dmChannelId m) then m
      else if falsy (sysadminUserId m) then m
      else case (dmChannelId m, sysadminUserId m) of
        (Some dm, Some uid) \<Rightarrow>
          (let msg = compose_message env uid result in
           case createPost env dm msg of
             Inl e \<Rightarrow> m
           | Inr u \<Rightarrow> m\<lparr>outbox := outbox m @ [(dm, msg)]\<rparr>)
      | (dm, uid) \<Rightarrow> m)"

subsection \<open>\<^verbatim>\<open>runMonitoring\<close>\<close>

text \<open>
  The first loop of a cycle: \<^verbatim>\<open>analyzeChannel\<close> for each configured channel name, the
  \<open>i\<close>-th call meeting \<open>envs i\<close>.  The result: the state, the limits asked for, the
  results that are not \<^verbatim>\<open>null\<close>.
\<close>

fun analyze_channels :: "MessageAnalyzer \<Rightarrow> (nat \<Rightarrow> call_env) \<Rightarrow> nat \<Rightarrow> bool \<Rightarrow> int option
    \<Rightarrow> string list \<Rightarrow> js_state \<Rightarrow> js_state \<times> int option list \<times> AnalysisResult list" where
  "analyze_channels an envs i firstRun lim [] s = (s, [], [])"
| "analyze_channels an envs i firstRun lim (chName # rest) s =
     (case analyzeChannel an (envs i) s chName firstRun lim of
        (s1, asked, handed, result) \<Rightarrow>
          (case analyze_channels an envs (Suc i) firstRun lim rest s1 of
             (s2, asked_rest, results) \<Rightarrow>
               (s2, asked # asked_rest,
                (case result of None \<Rightarrow> results | Some r \<Rightarrow> r # results))))"

fun send_all :: "(nat \<Rightarrow> notify_env) \<Rightarrow> nat \<Rightarrow> AnalysisResult list \<Rightarrow> TopicMonitor \<Rightarrow> TopicMonitor" where
  "send_all nenvs i [] m = m"
| "send_all nenvs i (r # rs) m = send_all nenvs (Suc i) rs (sendNotification (nenvs i) m r)"

text \<open>
  \<^verbatim>\<open>runMonitoring\<close>, the callback of the scheduler: the monitor after the cycle, the
  limits its fetches asked for, and how its promise settles.  An error of
  \<^verbatim>\<open>getLastRun\<close> is taken by the outer \<^verbatim>\<open>catch\<close>, which only logs; both callees catch
  their own errors; so the promise is fulfilled.
\<close>

definition runMonitoring :: "(nat \<Rightarrow> call_env) \<Rightarrow> (nat \<Rightarrow> notify_env) \<Rightarrow> TopicMonitor
    \<Rightarrow> (TopicMonitor \<times> int option list) \<times> unit res" where
  "runMonitoring envs nenvs m =
     (case isFirstRun (state m) of
        Inl e \<Rightarrow> ((m, []), Inr ())
      | Inr firstRun \<Rightarrow>
          (case analyze_channels (analyzer m) envs 0 firstRun (firstRunLimit (config m))
                  (channels (config m)) (state m) of
             (s', asked, results) \<Rightarrow>
               ((send_all nenvs 0 results (m\<lparr>state := s'\<rparr>), asked), Inr ())))"

text \<open>
  The callback the monitor gives to its scheduler, \<^verbatim>\<open>this.runMonitoring.bind(this)\<close>:
  the monitor after the cycle, and how the promise settles.
\<close>

definition monitoring_callback :: "(nat \<Rightarrow> call_env) \<Rightarrow> (nat \<Rightarrow> notify_env) \<Rightarrow> TopicMonitor
    \<Rightarrow> TopicMonitor \<times> unit res" where
  "monitoring_callback envs nenvs m =
     (case runMonitoring envs nenvs m of ((m', asked), settled) \<Rightarrow> (m', settled))"

section \<open>MonitoringScheduler\<close>

text \<open>
  The scheduler's fields: \<open>task\<close> tells whether \<^verbatim>\<open>this.task\<close> is set, \<open>isRunning\<close> is
  the in-flight flag.  The callback is a parameter: it takes what it works on (the
  monitor) to its new value and settles, fulfilled or rejected.
\<close>

record MonitoringScheduler =
  schedule :: string
  task :: bool
  isRunning :: bool

text \<open>
  \<^verbatim>\<open>start\<close> and \<^verbatim>\<open>stop\<close>; \<^verbatim>\<open>cron.validate\<close> is a parameter.  An error of
  \<^verbatim>\<open>cron.schedule\<close> or of \<^verbatim>\<open>task.stop\<close> is not modelled.
\<close>

definition start :: "(string \<Rightarrow> bool) \<Rightarrow> MonitoringScheduler \<Rightarrow> MonitoringScheduler \<times> bool" where
  "start validate s =
     (if task s then (s, False)
      else if \<not> validate (schedule s) then (s, False)
      else (s\<lparr>task := True\<rparr>, True))"

definition stop :: "MonitoringScheduler \<Rightarrow> MonitoringScheduler \<times> bool" where
  "stop s = (if \<not> task s then (s, False) else (s\<lparr>task := False\<rparr>, True))"

text \<open>
  An asynchronous function runs in two parts around its \<^verbatim>\<open>await\<close>.  The first part
  tests and sets the flag and calls the callback (\<open>True\<close>), or returns at once
  (\<open>False\<close>).  The second part runs when the callback has settled: the \<^verbatim>\<open>catch\<close> takes
  a rejection and logs it, the \<^verbatim>\<open>finally\<close> clears the flag, and the function's own
  promise is fulfilled.  \<^verbatim>\<open>runNow\<close> and the handler given to \<^verbatim>\<open>cron.schedule\<close> are
  written alike in the source.
\<close>

definition runNow_begin :: "MonitoringScheduler \<Rightarrow> MonitoringScheduler \<times> bool" where
  "runNow_begin s = (if isRunning s then (s, False) else (s\<lparr>isRunning := True\<rparr>, True))"

definition runNow_end :: "MonitoringScheduler \<Rightarrow> unit res \<Rightarrow> MonitoringScheduler \<times> unit res" where
  "runNow_end s settled =
     (let caught = (case settled of Inl e \<Rightarrow> Inr () | Inr u \<Rightarrow> Inr ())
      in (s\<lparr>isRunning := False\<rparr>, caught))"

definition tick_begin :: "MonitoringScheduler \<Rightarrow> MonitoringScheduler \<times> bool" where
  "tick_begin s = (if isRunning s then (s, False) else (s\<lparr>isRunning := True\<rparr>, True))"

definition tick_end :: "MonitoringScheduler \<Rightarrow> unit res \<Rightarrow> MonitoringScheduler \<times> unit res" where
  "tick_end s settled =
     (let caught = (case settled of Inl e \<Rightarrow> Inr () | Inr u \<Rightarrow> Inr ())
      in (s\<lparr>isRunning := False\<rparr>, caught))"

text \<open>
  One whole invocation, the callback running to its end in between: the scheduler and
  the callback's object afterwards, the number of calls of the callback, and how the
  invocation's promise settles.
\<close>

definition runNow :: "('w \<Rightarrow> 'w \<times> unit res) \<Rightarrow> MonitoringScheduler \<times> 'w
    \<Rightarrow> (MonitoringScheduler \<times> 'w) \<times> nat \<times> unit res" where
  "runNow callback sw =
     (case sw of (s, w) \<Rightarrow>
        (case runNow_begin s of
           (s1, False) \<Rightarrow> ((s1, w), 0, Inr ())
         | (s1, True) \<Rightarrow>
             (case callback w of
                (w', settled) \<Rightarrow>
                  (case runNow_end s1 settled of (s2, out) \<Rightarrow> ((s2, w'), 1, out)))))"

definition tick :: "('w \<Rightarrow> 'w \<times> unit res) \<Rightarrow> MonitoringScheduler \<times> 'w
    \<Rightarrow> (MonitoringScheduler \<times> 'w) \<times> nat \<times> unit res" where
  "tick callback sw =
     (case sw of (s, w) \<Rightarrow>
        (case tick_begin s of
           (s1, False) \<Rightarrow> ((s1, w), 0, Inr ())
         | (s1, True) \<Rightarrow>
             (case callback w of
                (w', settled) \<Rightarrow>
                  (case tick_end s1 settled of (s2, out) \<Rightarrow> ((s2, w'), 1, out)))))"

text \<open>
  Invocations interleave only at the \<^verbatim>\<open>await\<close>.  A trace of the scheduler is a list of
  events: a call of \<^verbatim>\<open>runNow\<close>, a tick of the cron task (it fires only while the task
  is set), and the settling of the callback in flight.  The number counts the calls of
  the callback.  The scheduler keeps nothing else: there is no queue of skipped
  invocations in the source.
\<close>

datatype event = RunNow | Tick | Settle "unit res"

fun step :: "MonitoringScheduler \<times> nat \<Rightarrow> event \<Rightarrow> MonitoringScheduler \<times> nat" where
  "step (s, n) RunNow = (case runNow_begin s of (s1, called) \<Rightarrow> (s1, if called then Suc n else n))"
| "step (s, n) Tick =
     (if task s then (case tick_begin s of (s1, called) \<Rightarrow> (s1, if called then Suc n else n))
      else (s, n))"
| "step (s, n) (Settle r) = (if isRunning s then (fst (runNow_end s r), n) else (s, n))"

definition run_events :: "MonitoringScheduler \<times> nat \<Rightarrow> event list \<Rightarrow> MonitoringScheduler \<times> nat" where
  "run_events sn evs = foldl step sn evs"

section \<open>The run-now tool\<close>

text \<open>
  \<^verbatim>\<open>handleRunMonitoring\<close> reads the module variable \<^verbatim>\<open>topicMonitorInstance\<close> (\<open>None\<close>
  for \<^verbatim>\<open>null\<close>; a monitor is its scheduler and its own fields), awaits
  \<^verbatim>\<open>topicMonitorInstance.runNow()\<close>, which awaits the scheduler's \<^verbatim>\<open>runNow\<close>, and
  answers with the object it gives to \<^verbatim>\<open>JSON.stringify\<close> and with \<^verbatim>\<open>isError\<close>
  (\<open>False\<close> where the answer has no such field).
\<close>

datatype payload = ErrorPayload string | ThrownPayload js_error | SuccessPayload bool string

record tool_response =
  content :: payload
  isError :: bool

definition handleRunMonitoring :: "('w \<Rightarrow> 'w \<times> unit res) \<Rightarrow> (MonitoringScheduler \<times> 'w) option
    \<Rightarrow> (MonitoringScheduler \<times> 'w) option \<times> tool_response" where
  "handleRunMonitoring callback topicMonitorInstance =
     (case topicMonitorInstance of
        None \<Rightarrow>
          (None, \<lparr> content = ErrorPayload ''Monitoring is not enabled or initialized'', isError = True \<rparr>)
      | Some mon \<Rightarrow>
          (case runNow callback mon of
             (mon', n, Inl e) \<Rightarrow> (Some mon', \<lparr> content = ThrownPayload e, isError = True \<rparr>)
           | (mon', n, Inr u) \<Rightarrow>
               (Some mon',
                \<lparr> content = SuccessPayload True ''Monitoring process completed successfully'',
                  isError = False \<rparr>)))"

section \<open>What the properties speak about\<close>

text \<open>
  The backing record is absent, or reading it throws, or parsing its text throws.
\<close>

definition absent_or_unparsable :: "(string \<Rightarrow> js_state res) \<Rightarrow> backing \<Rightarrow> bool" where
  "absent_or_unparsable parse b =
     (case b of
        Absent \<Rightarrow> True
      | Unreadable e \<Rightarrow> True
      | Content data \<Rightarrow> (case parse data of Inl e \<Rightarrow> True | Inr v \<Rightarrow> False))"

text \<open>The ids recorded for a channel: the channel's own array, if there is one.\<close>

definition own_ids :: "js_state \<Rightarrow> string \<Rightarrow> string list" where
  "own_ids s c =
     (case s of
        State st \<Rightarrow> (case processedPosts st c of None \<Rightarrow> [] | Some ids \<Rightarrow> ids)
      | NoPosts \<Rightarrow> []
      | IsNull \<Rightarrow> [])"

text \<open>\<open>n\<close> calls of \<open>markPostProcessed\<close> in a row, ended by the first that throws.\<close>

fun mark_times :: "nat \<Rightarrow> js_state \<Rightarrow> string \<Rightarrow> string \<Rightarrow> js_state res" where
  "mark_times 0 s c p = Inr s"
| "mark_times (Suc n) s c p =
     (case markPostProcessed s c p of Inl e \<Rightarrow> Inl e | Inr s' \<Rightarrow> mark_times n s' c p)"

text \<open>
  Everything that changes the state of the StateManager during the life of the process:
  its own three mutators, and a call of \<^verbatim>\<open>analyzeChannel\<close>.  A mutator that throws
  leaves the state as it was when it threw.
\<close>

datatype state_op =
    Mark string string
  | MarkAll string "string list"
  | Save fs_outcome string
  | Analyze MessageAnalyzer call_env string bool "int option"

fun apply_op :: "js_state \<Rightarrow> state_op \<Rightarrow> js_state" where
  "apply_op s (Mark c p) = (case markPostProcessed s c p of Inl e \<Rightarrow> s | Inr s' \<Rightarrow> s')"
| "apply_op s (MarkAll c ps) = fst (markPostsProcessed s c ps)"
| "apply_op s (Save fs now) = saveState fs now s"
| "apply_op s (Analyze an env chName firstRun lim) = fst (analyzeChannel an env s chName firstRun lim)"



text \<open>
  Case-insensitive containment of a label in a message: after folding the letters of
  both to lower case, the label is a contiguous part of the message.  The first label
  of the topic list that a message contains.
\<close>

definition contains_label :: "string \<Rightarrow> string \<Rightarrow> bool" where
  "contains_label msg label \<longleftrightarrow> sublist (toLowerCase label) (toLowerCase msg)"

definition first_label :: "string list \<Rightarrow> string \<Rightarrow> string option" where
  "first_label ts msg = find (contains_label msg) ts"




section \<open>Sample inputs\<close>

definition sample_post :: "string \<Rightarrow> string \<Rightarrow> Post" where
  "sample_post i msg = \<lparr> post_id = i, user_id = ''u1'', message = msg, create_at = 0 \<rparr>"

definition town :: Channel where
  "town = \<lparr> channel_id = ''c1'', channel_name = ''town-square'', channel_type = ''O'' \<rparr>"

text \<open>A backend that answers with the given text; the other two parameters are unused
  as long as the labels and the text are plain and no label is \<^verbatim>\<open>__proto__\<close>.\<close>

definition replying :: "string \<Rightarrow> backend" where
  "replying txt = \<lparr> llm_response = Inr txt, regex_engine = (\<lambda>t c. Inl SyntaxError),
     proto_entries = Inl TypeError \<rparr>"

text \<open>A workspace with the one channel \<open>town\<close>, whose fetch returns the most recent
  \<open>limit\<close> of the given posts; every write of the state file succeeds.\<close>

definition sample_env :: "Post list \<Rightarrow> call_env" where
  "sample_env ps =
     \<lparr> getChannels = Inr (ChannelArray [town]),
       getPostsForChannel = (\<lambda>cid limit. Inr (take (nat limit) ps)),
       llm = replying [],
       save_fs = Written,
       save_now = ''t1'' \<rparr>"


text \<open>What \<^verbatim>\<open>JSON.parse\<close> gives for three texts: for \<^verbatim>\<open>{}\<close> an object without
  \<^verbatim>\<open>processedPosts\<close>, for \<^verbatim>\<open>null\<close> the value \<^verbatim>\<open>null\<close>, and a \<^verbatim>\<open>SyntaxError\<close> for a
  text cut off after its first key.\<close>

definition sample_parse :: "string \<Rightarrow> js_state res" where
  "sample_parse txt =
     (if txt = ''{}'' then Inr NoPosts
      else if txt = ''null'' then Inr IsNull
      else Inl SyntaxError)"

definition sample_config :: "int \<Rightarrow> bool \<Rightarrow> int option \<Rightarrow> MonitoringConfig" where
  "sample_config lim onFirstRun firstLim =
     \<lparr> enabled = True, config_schedule = ''*/5 * * * *'', channels = [''town-square''],
       config_topics = [''table tennis''], config_messageLimit = lim,
       stateFilePath = ''./monitor-state.json'',
       processExistingOnFirstRun = onFirstRun, firstRunLimit = firstLim \<rparr>"

definition sample_notify :: notify_env where
  "sample_notify =
     \<lparr> getUserProfile = (\<lambda>uid. if uid = ''u1'' then Inr \<lparr> username = Some ''ann'' \<rparr> else Inl ApiError),
       toLocaleString = (\<lambda>t. ''1/1/1970, 12:00:00 AM''),
       createPost = (\<lambda>cid msg. Inr ()) \<rparr>"

definition idle :: MonitoringScheduler where
  "idle = \<lparr> schedule = ''*/5 * * * *'', task = True, isRunning = False \<rparr>"

text \<open>A callback that posts a note and then rejects.\<close>

definition failing_callback :: "string list \<Rightarrow> string list \<times> unit res" where
  "failing_callback w = (w @ [''ran''], Inl ApiError)"

text \<open>A result with \<open>n\<close> matching posts \<open>p1\<close>, \<open>p2\<close>, ...\<close>

definition sample_result :: "nat \<Rightarrow> AnalysisResult" where
  "sample_result n =
     \<lparr> channelId = ''c1'', channelName = ''town-square'',
       posts = map (\<lambda>i. sample_post (''p'' @ string_of_nat i) ''ping pong?'') [1..<Suc n],
       relevantTopics = [''table tennis''] \<rparr>"

definition sample_llm :: LlmConfig where
  "sample_llm = \<lparr> apiKey = ''key'', model = ''claude-3-sonnet-20240229'', maxTokens = 1000 \<rparr>"

section \<open>Properties of the StateManager\<close>

lemma markPostProcessed_State:
  "markPostProcessed (State st) c p =
     (if processedPosts st c = None \<and> proto_member c then Inl TypeError
      else Inr (State (st\<lparr>processedPosts := (processedPosts st)
             (c \<mapsto> (if p \<in> set (own_ids (State st) c) then own_ids (State st) c
                    else own_ids (State st) c @ [p]))\<rparr>)))"
  by (auto simp: markPostProcessed_def isPostProcessed_def get_property_def or_empty_def
      array_includes_def own_ids_def Let_def fun_upd_idem split: option.splits)

lemma markPostProcessed_unshaped:
  "markPostProcessed NoPosts c p = Inl TypeError" "markPostProcessed IsNull c p = Inl TypeError"
  by (simp_all add: markPostProcessed_def)

lemma own_ids_State: "own_ids (State st) c = (case processedPosts st c of None \<Rightarrow> [] | Some ids \<Rightarrow> ids)"
  by (simp add: own_ids_def)

lemma isPostProcessed_State:
  "isPostProcessed (State st) c p =
     (if processedPosts st c = None \<and> proto_member c then Inl TypeError
      else Inr (p \<in> set (own_ids (State st) c)))"
  by (auto simp: isPostProcessed_def get_property_def or_empty_def array_includes_def own_ids_def
      split: option.splits)

lemma markPostProcessed_Inr:
  assumes "markPostProcessed s c p = Inr s1"
  shows "\<exists>st st1. s = State st \<and> s1 = State st1
     \<and> \<not> (processedPosts st c = None \<and> proto_member c)
     \<and> processedPosts st1 c \<noteq> None
     \<and> (\<forall>c'. own_ids s1 c' = (if c' = c
            then (if p \<in> set (own_ids s c) then own_ids s c else own_ids s c @ [p])
            else own_ids s c'))"
proof (cases s)
  case (State st)
  then show ?thesis
    using assms by (auto simp: markPostProcessed_State own_ids_State split: if_splits)
next
  case NoPosts
  then show ?thesis using assms by (simp add: markPostProcessed_unshaped)
next
  case IsNull
  then show ?thesis using assms by (simp add: markPostProcessed_unshaped)
qed

lemma markPostProcessed_again:
  assumes "markPostProcessed s c p = Inr s1"
  shows "markPostProcessed s1 c p = Inr s1"
proof -
  from markPostProcessed_Inr [OF assms] obtain st st1 where
    s1: "s1 = State st1" and own: "processedPosts st1 c \<noteq> None"
    and ids: "\<forall>c'. own_ids s1 c' = (if c' = c
            then (if p \<in> set (own_ids s c) then own_ids s c else own_ids s c @ [p])
            else own_ids s c')"
    by blast
  have mem: "p \<in> set (own_ids (State st1) c)"
    using ids s1 by auto
  obtain xs where xs: "processedPosts st1 c = Some xs"
    using own by auto
  have "(processedPosts st1)(c \<mapsto> own_ids (State st1) c) = processedPosts st1"
    using xs by (auto simp: own_ids_State)
  then show ?thesis
    using mem own by (simp add: s1 markPostProcessed_State)
qed

lemma mark_times_repeat:
  assumes "markPostProcessed s c p = Inr s1"
  shows "mark_times (Suc n) s c p = Inr s1"
proof -
  have "mark_times k s1 c p = Inr s1" for k
    by (induction k) (simp_all add: markPostProcessed_again [OF assms])
  then show ?thesis using assms by simp
qed

text \<open>
  C9 as stated fails for a channel id that is a member name of \<^verbatim>\<open>Object.prototype\<close>.
  On a state with no own array for ``constructor'' the read gives the inherited
  function, which is truthy, so no array is created, and \<^verbatim>\<open>includes\<close> is no function
  of it: the first call throws a \<^verbatim>\<open>TypeError\<close>, and so do two calls in a row.
\<close>

theorem mark_at_prototype_name_throws:
  "markPostProcessed (State (DEFAULT_STATE ''t0'')) ''constructor'' ''p1'' = Inl TypeError
   \<and> mark_times 2 (State (DEFAULT_STATE ''t0'')) ''constructor'' ''p1'' = Inl TypeError"
proof -
  have pm: "proto_member ''constructor''"
    by code_simp
  have m: "markPostProcessed (State (DEFAULT_STATE ''t0'')) ''constructor'' ''p1'' = Inl TypeError"
    using pm by (simp add: markPostProcessed_State DEFAULT_STATE_def)
  then show ?thesis
    by (simp add: eval_nat_numeral)
qed

text \<open>
  C9, amended.  (1) Once a call of \<open>markPostProcessed\<close> has returned, any number of
  further calls with the same channel id and post id return as well and leave the state
  as the first call left it.  (2) On a state of the declared shape, for a channel id
  that is no member name of \<^verbatim>\<open>Object.prototype\<close>, the call returns, any number of
  calls gives the state of one call, and the ids recorded for the channel are the
  previous ones and the post id.
\<close>

theorem markPostProcessed_idempotent:
  "(markPostProcessed s cid pid = Inr s1 \<longrightarrow> mark_times (Suc n) s cid pid = Inr s1)
   \<and> (\<not> proto_member cid \<longrightarrow>
        (\<exists>s2. markPostProcessed (State st) cid pid = Inr s2
           \<and> mark_times (Suc n) (State st) cid pid = Inr s2
           \<and> set (own_ids s2 cid) = insert pid (set (own_ids (State st) cid))))"
proof (intro conjI impI)
  assume "markPostProcessed s cid pid = Inr s1"
  then show "mark_times (Suc n) s cid pid = Inr s1"
    by (rule mark_times_repeat)
next
  assume np: "\<not> proto_member cid"
  then obtain s2 where m: "markPostProcessed (State st) cid pid = Inr s2"
    by (simp add: markPostProcessed_State)
  from markPostProcessed_Inr [OF m]
  have "own_ids s2 cid = (if pid \<in> set (own_ids (State st) cid) then own_ids (State st) cid
            else own_ids (State st) cid @ [pid])"
    by auto
  then have "set (own_ids s2 cid) = insert pid (set (own_ids (State st) cid))"
    by (auto split: if_splits)
  then show "\<exists>s2. markPostProcessed (State st) cid pid = Inr s2
           \<and> mark_times (Suc n) (State st) cid pid = Inr s2
           \<and> set (own_ids s2 cid) = insert pid (set (own_ids (State st) cid))"
    using m mark_times_repeat [OF m] by blast
qed

theorem markPostProcessed_idempotent_witness:
  "\<not> proto_member ''c1''
   \<and> markPostProcessed (State (DEFAULT_STATE ''t0'')) ''c1'' ''p1''
       = Inr (State \<lparr> lastRun = ''t0'', processedPosts = [''c1'' \<mapsto> [''p1'']] \<rparr>)
   \<and> mark_times 3 (State (DEFAULT_STATE ''t0'')) ''c1'' ''p1''
       = Inr (State \<lparr> lastRun = ''t0'', processedPosts = [''c1'' \<mapsto> [''p1'']] \<rparr>)"
proof -
  have np: "\<not> proto_member ''c1''"
    by code_simp
  have m: "markPostProcessed (State (DEFAULT_STATE ''t0'')) ''c1'' ''p1''
       = Inr (State \<lparr> lastRun = ''t0'', processedPosts = [''c1'' \<mapsto> [''p1'']] \<rparr>)"
    using np by (simp add: markPostProcessed_State DEFAULT_STATE_def own_ids_State)
  from markPostProcessed_idempotent
    [where s = "State (DEFAULT_STATE ''t0'')" and cid = "''c1''" and pid = "''p1''" and n = 2
       and ?s1.0 = "State \<lparr> lastRun = ''t0'', processedPosts = [''c1'' \<mapsto> [''p1'']] \<rparr>"
       and st = "DEFAULT_STATE ''t0''"]
  have "mark_times 3 (State (DEFAULT_STATE ''t0'')) ''c1'' ''p1''
       = Inr (State \<lparr> lastRun = ''t0'', processedPosts = [''c1'' \<mapsto> [''p1'']] \<rparr>)"
    using m by (simp add: eval_nat_numeral)
  then show ?thesis using np m by simp
qed

lemma loadState_default:
  assumes "absent_or_unparsable parse b"
  shows "fst (loadState dflt parse b) = State dflt" and "fst (snd (loadState dflt parse b))"
    and "(snd (snd (loadState dflt parse b)) = []) = (b = Absent)"
  using assms
  by (auto simp: absent_or_unparsable_def loadState_def loadState_try_def
      split: backing.splits sum.splits)

text \<open>
  C7 as stated fails for a record whose text parses to a value that is no
  \<^verbatim>\<open>MonitorState\<close>: \<open>loadState\<close> returns the value of \<^verbatim>\<open>{}\<close> as it is, not the default
  state and with nothing logged, and \<open>isPostProcessed\<close> and \<open>markPostProcessed\<close>
  throw on it.
\<close>

theorem parsed_record_is_not_checked:
  "loadState (DEFAULT_STATE ''t0'') sample_parse (Content ''{}'') = (NoPosts, False, [])
   \<and> isPostProcessed (fst (loadState (DEFAULT_STATE ''t0'') sample_parse (Content ''{}''))) ''c1'' ''p1''
       = Inl TypeError
   \<and> markPostProcessed (fst (loadState (DEFAULT_STATE ''t0'') sample_parse (Content ''{}''))) ''c1'' ''p1''
       = Inl TypeError"
  by (simp add: loadState_def loadState_try_def sample_parse_def isPostProcessed_def
      markPostProcessed_def)

text \<open>
  C7, amended.  When the backing record is absent, or reading it throws, or parsing its
  text throws, \<open>loadState\<close> returns a copy of the module constant \<^verbatim>\<open>DEFAULT_STATE\<close> as
  it is at the time of the call (a value: nothing is thrown), and writes a line to the
  error log exactly when the record was there.  As the module initialises it, the
  constant has the time of the module's load as \<^verbatim>\<open>lastRun\<close> and no processed posts.
  On the returned state, for every channel id that is no member name of
  \<^verbatim>\<open>Object.prototype\<close>, \<open>isPostProcessed\<close> answers whether the post id is recorded for
  the channel, and \<open>markPostProcessed\<close> returns a state on which \<open>isPostProcessed\<close>
  answers true, the post id appended to the channel's ids if it was not among them.
\<close>

theorem loadState_tolerates_absent_or_unparsable:
  "absent_or_unparsable parse b \<Longrightarrow>
     fst (loadState dflt parse b) = State dflt
   \<and> fst (snd (loadState dflt parse b))
   \<and> ((snd (snd (loadState dflt parse b)) = []) = (b = Absent))
   \<and> fst (loadState (DEFAULT_STATE boot) parse b)
       = State \<lparr> lastRun = boot, processedPosts = Map.empty \<rparr>
   \<and> (\<not> proto_member c \<longrightarrow>
         isPostProcessed (fst (loadState dflt parse b)) c p
           = Inr (p \<in> set (own_ids (State dflt) c))
       \<and> (\<exists>s1. markPostProcessed (fst (loadState dflt parse b)) c p = Inr s1
              \<and> isPostProcessed s1 c p = Inr True
              \<and> own_ids s1 c = (if p \<in> set (own_ids (State dflt) c) then own_ids (State dflt) c
                                else own_ids (State dflt) c @ [p])))"
proof -
  assume a: "absent_or_unparsable parse b"
  note d = loadState_default [OF a]
  have e: "fst (loadState (DEFAULT_STATE boot) parse b)
       = State \<lparr> lastRun = boot, processedPosts = Map.empty \<rparr>"
    by (simp add: d(1) DEFAULT_STATE_def)
  have ops: "isPostProcessed (State dflt) c p = Inr (p \<in> set (own_ids (State dflt) c))
       \<and> (\<exists>s1. markPostProcessed (State dflt) c p = Inr s1
              \<and> isPostProcessed s1 c p = Inr True
              \<and> own_ids s1 c = (if p \<in> set (own_ids (State dflt) c) then own_ids (State dflt) c
                                else own_ids (State dflt) c @ [p]))" if np: "\<not> proto_member c"
  proof -
    have i: "isPostProcessed (State dflt) c p = Inr (p \<in> set (own_ids (State dflt) c))"
      using np by (simp add: isPostProcessed_State)
    obtain s1 where m: "markPostProcessed (State dflt) c p = Inr s1"
      using np by (simp add: markPostProcessed_State)
    from markPostProcessed_Inr [OF m] obtain st1 where
      s1: "s1 = State st1" and own: "processedPosts st1 c \<noteq> None"
      and ids: "own_ids s1 c = (if p \<in> set (own_ids (State dflt) c) then own_ids (State dflt) c
                                else own_ids (State dflt) c @ [p])"
      by auto
    have "p \<in> set (own_ids (State st1) c)"
      using ids s1 by (auto split: if_splits)
    then have "isPostProcessed s1 c p = Inr True"
      using own by (simp add: s1 isPostProcessed_State)
    then show ?thesis
      using i m ids by blast
  qed
  show ?thesis
    using d e ops by simp
qed

theorem loadState_tolerates_absent_or_unparsable_witness:
  "absent_or_unparsable sample_parse (Content ''{ \"lastRun\": '')
   \<and> loadState (DEFAULT_STATE ''t0'') sample_parse (Content ''{ \"lastRun\": '')
       = (State (DEFAULT_STATE ''t0''), True, [SyntaxError])
   \<and> \<not> proto_member ''c1''
   \<and> isPostProcessed (fst (loadState (DEFAULT_STATE ''t0'') sample_parse (Content ''{ \"lastRun\": '')))
        ''c1'' ''p1'' = Inr False
   \<and> own_ids (fst (loadState (DEFAULT_STATE ''t0'') sample_parse Absent)) ''c1'' = []"
proof -
  have h: "absent_or_unparsable sample_parse (Content ''{ \"lastRun\": '')"
    by code_simp
  have v: "loadState (DEFAULT_STATE ''t0'') sample_parse (Content ''{ \"lastRun\": '')
       = (State (DEFAULT_STATE ''t0''), True, [SyntaxError])"
    by (simp add: loadState_def loadState_try_def sample_parse_def)
  have np: "\<not> proto_member ''c1''"
    by code_simp
  have ab: "own_ids (fst (loadState (DEFAULT_STATE ''t0'') sample_parse Absent)) ''c1'' = []"
    by (simp add: loadState_def loadState_try_def own_ids_State DEFAULT_STATE_def)
  have em: "own_ids (State (DEFAULT_STATE ''t0'')) ''c1'' = []"
    by (simp add: own_ids_State DEFAULT_STATE_def)
  from loadState_tolerates_absent_or_unparsable
    [OF h, where dflt = "DEFAULT_STATE ''t0''" and c = "''c1''" and p = "''p1''"]
  have "isPostProcessed (fst (loadState (DEFAULT_STATE ''t0'') sample_parse (Content ''{ \"lastRun\": '')))
        ''c1'' ''p1'' = Inr (''p1'' \<in> set (own_ids (State (DEFAULT_STATE ''t0'')) ''c1''))"
    using np by blast
  then have "isPostProcessed (fst (loadState (DEFAULT_STATE ''t0'') sample_parse (Content ''{ \"lastRun\": '')))
        ''c1'' ''p1'' = Inr False"
    by (simp add: em)
  then show ?thesis using h v np ab by (intro conjI)
qed

text \<open>
  The copy shares \<^verbatim>\<open>processedPosts\<close> with the constant: a second manager that loads
  the default in the same process finds the marks of the first.  A record that holds
  \<^verbatim>\<open>null\<close> is returned as it is as well.
\<close>

lemma second_load_shares_the_marks:
  "own_ids (fst (loadState
      (DEFAULT_STATE_after (DEFAULT_STATE ''t0'') True
         (apply_op (fst (loadState (DEFAULT_STATE ''t0'') sample_parse Absent)) (Mark ''c1'' ''p1'')))
      sample_parse Absent)) ''c1'' = [''p1'']"
  by code_simp

lemma null_record_is_not_checked:
  "loadState (DEFAULT_STATE ''t0'') sample_parse (Content ''null'') = (IsNull, False, [])
   \<and> isPostProcessed IsNull ''c1'' ''p1'' = Inl TypeError
   \<and> getLastRun IsNull = Inl TypeError"
  by (simp add: loadState_def loadState_try_def sample_parse_def isPostProcessed_def getLastRun_def)

subsection \<open>Processed posts stay processed\<close>

















section \<open>The limit of a fetch\<close>

lemma isFirstRun_cases: "isFirstRun s = (if s = IsNull then Inl TypeError else Inr False)"
  by (cases s) (simp_all add: isFirstRun_def getLastRun_def)

lemma fetch_limit_steady: "fetch_limit False lim ml = ml"
  by (simp add: fetch_limit_def split: option.splits)

lemma analyzeChannel_asked:
  "fst (snd (analyzeChannel an env s chName fr lim)) = None
   \<or> fst (snd (analyzeChannel an env s chName fr lim)) = Some (fetch_limit fr lim (messageLimit an))"
  by (auto simp: analyzeChannel_def Let_def split: sum.splits option.splits prod.splits)

lemma analyze_channels_asked:
  "list_all (\<lambda>a. a = None \<or> a = Some (fetch_limit fr lim (messageLimit an)))
     (fst (snd (analyze_channels an envs i fr lim chNames s)))"
proof (induction chNames arbitrary: i s)
  case Nil
  show ?case by simp
next
  case (Cons chName rest)
  obtain s1 asked handed result where
    a: "analyzeChannel an (envs i) s chName fr lim = (s1, asked, handed, result)"
    by (cases "analyzeChannel an (envs i) s chName fr lim") auto
  have h: "asked = None \<or> asked = Some (fetch_limit fr lim (messageLimit an))"
    using analyzeChannel_asked [of an "envs i" s chName fr lim] a by simp
  obtain s2 asked_rest results where
    r: "analyze_channels an envs (Suc i) fr lim rest s1 = (s2, asked_rest, results)"
    by (cases "analyze_channels an envs (Suc i) fr lim rest s1") auto
  have "list_all (\<lambda>a. a = None \<or> a = Some (fetch_limit fr lim (messageLimit an))) asked_rest"
    using Cons.IH [of "Suc i" s1] r by simp
  then show ?case using a r h by simp
qed

text \<open>
  C1 (what the code does).  \<open>isFirstRun\<close> is false for every state of the declared
  shape, also for the default state of a process that found no persisted record, and
  true for no state at all: it negates the truth value of a Date object.  So every
  fetch of every cycle asks for \<open>messageLimit\<close>, whatever \<open>firstRunLimit\<close> and
  \<open>processExistingOnFirstRun\<close> say; \<open>firstRunLimit\<close> is never the limit of a fetch.
\<close>

theorem first_run_limit_never_used:
  "isFirstRun (State st) = Inr False
   \<and> isFirstRun s \<noteq> Inr True
   \<and> list_all (\<lambda>a. a = None \<or> a = Some (messageLimit (analyzer m)))
        (snd (fst (runMonitoring envs nenvs m)))"
proof -
  have "list_all (\<lambda>a. a = None \<or> a = Some (fetch_limit False (firstRunLimit (config m)) (messageLimit (analyzer m))))
     (fst (snd (analyze_channels (analyzer m) envs 0 False (firstRunLimit (config m))
        (channels (config m)) (state m))))"
    by (rule analyze_channels_asked)
  then have "list_all (\<lambda>a. a = None \<or> a = Some (messageLimit (analyzer m)))
        (snd (fst (runMonitoring envs nenvs m)))"
    by (auto simp: runMonitoring_def isFirstRun_cases fetch_limit_steady split: prod.splits)
  then show ?thesis
    by (simp add: isFirstRun_cases)
qed

theorem first_run_limit_never_used_witness:
  "snd (fst (runMonitoring
        (\<lambda>i. sample_env [sample_post ''p1'' ''a'', sample_post ''p2'' ''b'',
                          sample_post ''p3'' ''c'', sample_post ''p4'' ''d''])
        (\<lambda>i. sample_notify)
        (new_TopicMonitor (sample_config 3 True (Some 1)) (DEFAULT_STATE ''t0'') sample_parse Absent)))
      = [Some 3]
   \<and> own_ids (state (fst (fst (runMonitoring
        (\<lambda>i. sample_env [sample_post ''p1'' ''a'', sample_post ''p2'' ''b'',
                          sample_post ''p3'' ''c'', sample_post ''p4'' ''d''])
        (\<lambda>i. sample_notify)
        (new_TopicMonitor (sample_config 3 True (Some 1)) (DEFAULT_STATE ''t0'') sample_parse Absent)))))
        ''c1''
      = [''p1'', ''p2'', ''p3'']"
proof -
  let ?m = "new_TopicMonitor (sample_config 3 True (Some 1)) (DEFAULT_STATE ''t0'') sample_parse Absent"
  let ?envs = "\<lambda>i::nat. sample_env [sample_post ''p1'' ''a'', sample_post ''p2'' ''b'',
                          sample_post ''p3'' ''c'', sample_post ''p4'' ''d'']"
  have asked: "snd (fst (runMonitoring ?envs (\<lambda>i. sample_notify) ?m)) = [Some 3]"
    by code_simp
  have marked: "own_ids (state (fst (fst (runMonitoring ?envs (\<lambda>i. sample_notify) ?m))))
      ''c1'' = [''p1'', ''p2'', ''p3'']"
    by code_simp
  have lim: "messageLimit (analyzer ?m) = 3"
    by (simp add: new_TopicMonitor_def sample_config_def)
  from first_run_limit_never_used [where m = ?m and envs = ?envs and nenvs = "\<lambda>i. sample_notify"]
  have "list_all (\<lambda>a. a = None \<or> a = Some 3) (snd (fst (runMonitoring ?envs (\<lambda>i. sample_notify) ?m)))"
    unfolding lim by simp
  then show ?thesis using asked marked by simp
qed

section \<open>Keyword classification\<close>

lemma js_includes_sublist: "js_includes h n \<longleftrightarrow> sublist n h"
  by (induction h) (simp_all add: sublist_Cons_right)

lemma find_contains_label:
  "find (\<lambda>topic. js_includes (toLowerCase msg) (toLowerCase topic)) ts = first_label ts msg"
  by (simp add: first_label_def contains_label_def [abs_def] js_includes_sublist)

lemma first_label_None: "first_label ts msg = None \<longleftrightarrow> \<not> list_ex (contains_label msg) ts"
  by (auto simp: first_label_def find_None_iff list_ex_iff)

lemma first_label_Some: "first_label ts msg = Some t \<Longrightarrow> t \<in> set ts \<and> contains_label msg t"
  by (auto simp: first_label_def find_Some_iff)

lemma fallback_loop_posts:
  "fst (fallback_loop ps ts rp rt)
     = rp @ filter (\<lambda>post. list_ex (contains_label (message post)) ts) ps"
proof (induction ps arbitrary: rp rt)
  case Nil
  show ?case by simp
next
  case (Cons p ps)
  show ?case
  proof (cases "first_label ts (message p)")
    case None
    then have "\<not> list_ex (contains_label (message p)) ts"
      by (simp add: first_label_None)
    then show ?thesis
      using Cons.IH [of rp rt] by (simp add: find_contains_label None)
  next
    case (Some t)
    then have "list_ex (contains_label (message p)) ts"
      using first_label_None [of ts "message p"] by simp
    then show ?thesis
      using Some Cons.IH [of "rp @ [p]"] by (simp add: find_contains_label)
  qed
qed

lemma fallback_loop_topics:
  "set (snd (fallback_loop ps ts rp rt))
     = set rt \<union> {t. \<exists>post \<in> set ps. first_label ts (message post) = Some t}"
proof (induction ps arbitrary: rp rt)
  case Nil
  show ?case by simp
next
  case (Cons p ps)
  show ?case
  proof (cases "first_label ts (message p)")
    case None
    then show ?thesis
      using Cons.IH [of rp rt] by (simp add: find_contains_label)
  next
    case (Some t)
    show ?thesis
      using Some Cons.IH [of "rp @ [p]" "if t \<in> set rt then rt else rt @ [t]"]
      by (auto simp: find_contains_label)
  qed
qed

lemma fallback_loop_distinct:
  "distinct rt \<Longrightarrow> distinct (snd (fallback_loop ps ts rp rt))"
proof (induction ps arbitrary: rp rt)
  case Nil
  then show ?case by simp
next
  case (Cons p ps)
  show ?case
  proof (cases "first_label ts (message p)")
    case None
    then show ?thesis
      using Cons.IH [of rt rp] Cons.prems by (simp add: find_contains_label)
  next
    case (Some t)
    have "distinct (if t \<in> set rt then rt else rt @ [t])"
      using Cons.prems by simp
    then show ?thesis
      using Some Cons.IH [of "if t \<in> set rt then rt else rt @ [t]" "rp @ [p]"]
      by (simp add: find_contains_label)
  qed
qed

text \<open>
  C2 as stated fails for \<open>fallbackAnalysis\<close>, the policy taken when there is no backend
  configuration or the backend call throws: it looks for the label itself, and
  ``just bought a new butterfly blade'' does not contain ``table tennis''.
\<close>

theorem fallback_misses_butterfly_blade:
  "''table tennis'' \<notin> set (llmTopics (fallbackAnalysis
        [sample_post ''p1'' ''just bought a new butterfly blade''] [''table tennis'']))
   \<and> relevantPosts (fallbackAnalysis
        [sample_post ''p1'' ''just bought a new butterfly blade''] [''table tennis'']) = []
   \<and> relevantPosts (analyzePostsWithLLM None (replying [])
        [sample_post ''p1'' ''just bought a new butterfly blade''] [''table tennis'']) = []"
  by code_simp

text \<open>
  C2, amended.  For messages and labels of ASCII text, the fallback of the backend
  analyzer (\<open>fallbackAnalysis\<close>) is case-insensitive containment of the topic label:
  the relevant posts are exactly the posts whose message contains some label of the
  topic list in any case of letters, in the order of the posts, and the matched topics
  are, without repetition, the first label of the topic list that each such message
  contains.  With the one topic ``table tennis'' the fallback matches neither ``just
  bought a new butterfly blade'' nor ``let's grab lunch'', and it matches ``Table Tennis
  tonight?''.  The keyword analyzer with the dictionary (\<open>analyzeWithLLM\<close>) matches
  ``just bought a new butterfly blade'' to ``table tennis'' and ``let's grab lunch'' to
  nothing.
\<close>

theorem table_tennis_classification:
  "(list_all (\<lambda>post. ascii (message post)) ps \<and> list_all ascii ts \<longrightarrow>
       relevantPosts (fallbackAnalysis ps ts)
         = filter (\<lambda>post. list_ex (contains_label (message post)) ts) ps
     \<and> set (llmTopics (fallbackAnalysis ps ts))
         = {t. \<exists>post \<in> set ps. first_label ts (message post) = Some t}
     \<and> distinct (llmTopics (fallbackAnalysis ps ts)))
   \<and> analyzeWithLLM ''just bought a new butterfly blade'' [''table tennis''] = Inr [''table tennis'']
   \<and> analyzeWithLLM ''let's grab lunch'' [''table tennis''] = Inr []
   \<and> fallbackAnalysis [sample_post ''p1'' ''just bought a new butterfly blade'',
                        sample_post ''p2'' ''let's grab lunch''] [''table tennis'']
       = \<lparr> relevantPosts = [], llmTopics = [] \<rparr>
   \<and> fallbackAnalysis [sample_post ''p3'' ''Table Tennis tonight?''] [''table tennis'']
       = \<lparr> relevantPosts = [sample_post ''p3'' ''Table Tennis tonight?''],
           llmTopics = [''table tennis''] \<rparr>"
proof -
  have g1: "relevantPosts (fallbackAnalysis ps ts)
         = filter (\<lambda>post. list_ex (contains_label (message post)) ts) ps"
    using fallback_loop_posts [of ps ts "[]" "[]"]
    by (cases "fallback_loop ps ts [] []") (simp add: fallbackAnalysis_def)
  have g2: "set (llmTopics (fallbackAnalysis ps ts))
         = {t. \<exists>post \<in> set ps. first_label ts (message post) = Some t}"
    using fallback_loop_topics [of ps ts "[]" "[]"]
    by (cases "fallback_loop ps ts [] []") (simp add: fallbackAnalysis_def)
  have g3: "distinct (llmTopics (fallbackAnalysis ps ts))"
    using fallback_loop_distinct [of "[]" ps ts "[]"]
    by (cases "fallback_loop ps ts [] []") (simp add: fallbackAnalysis_def)
  have c1: "analyzeWithLLM ''just bought a new butterfly blade'' [''table tennis''] = Inr [''table tennis'']"
    by code_simp
  have c2: "analyzeWithLLM ''let's grab lunch'' [''table tennis''] = Inr []"
    by code_simp
  have c3: "fallbackAnalysis [sample_post ''p1'' ''just bought a new butterfly blade'',
                        sample_post ''p2'' ''let's grab lunch''] [''table tennis'']
       = \<lparr> relevantPosts = [], llmTopics = [] \<rparr>"
    by code_simp
  have c4: "fallbackAnalysis [sample_post ''p3'' ''Table Tennis tonight?''] [''table tennis'']
       = \<lparr> relevantPosts = [sample_post ''p3'' ''Table Tennis tonight?''],
           llmTopics = [''table tennis''] \<rparr>"
    by code_simp
  show ?thesis
    using g1 g2 g3 c1 c2 c3 c4 by (intro conjI impI)
qed

theorem table_tennis_classification_witness:
  "list_all (\<lambda>post. ascii (message post))
      [sample_post ''p3'' ''Table Tennis tonight?'', sample_post ''p2'' ''let's grab lunch'',
       sample_post ''p4'' ''Chess or TABLE TENNIS?'']
   \<and> list_all ascii [''table tennis'', ''chess'']
   \<and> filter (\<lambda>post. list_ex (contains_label (message post)) [''table tennis'', ''chess''])
      [sample_post ''p3'' ''Table Tennis tonight?'', sample_post ''p2'' ''let's grab lunch'',
       sample_post ''p4'' ''Chess or TABLE TENNIS?'']
     = [sample_post ''p3'' ''Table Tennis tonight?'', sample_post ''p4'' ''Chess or TABLE TENNIS?'']
   \<and> relevantPosts (fallbackAnalysis
      [sample_post ''p3'' ''Table Tennis tonight?'', sample_post ''p2'' ''let's grab lunch'',
       sample_post ''p4'' ''Chess or TABLE TENNIS?''] [''table tennis'', ''chess''])
     = [sample_post ''p3'' ''Table Tennis tonight?'', sample_post ''p4'' ''Chess or TABLE TENNIS?'']
   \<and> first_label [''table tennis'', ''chess''] ''Chess or TABLE TENNIS?'' = Some ''table tennis''
   \<and> llmTopics (fallbackAnalysis
      [sample_post ''p3'' ''Table Tennis tonight?'', sample_post ''p2'' ''let's grab lunch'',
       sample_post ''p4'' ''Chess or TABLE TENNIS?''] [''table tennis'', ''chess''])
     = [''table tennis'']"
proof -
  let ?ps = "[sample_post ''p3'' ''Table Tennis tonight?'', sample_post ''p2'' ''let's grab lunch'',
       sample_post ''p4'' ''Chess or TABLE TENNIS?'']"
  let ?ts = "[''table tennis'', ''chess'']"
  have h1: "list_all (\<lambda>post. ascii (message post)) ?ps"
    by code_simp
  have h2: "list_all ascii ?ts"
    by code_simp
  have f: "filter (\<lambda>post. list_ex (contains_label (message post)) ?ts) ?ps
     = [sample_post ''p3'' ''Table Tennis tonight?'', sample_post ''p4'' ''Chess or TABLE TENNIS?'']"
    by code_simp
  have l: "first_label ?ts ''Chess or TABLE TENNIS?'' = Some ''table tennis''"
    by code_simp
  have t: "llmTopics (fallbackAnalysis ?ps ?ts) = [''table tennis'']"
    by code_simp
  from table_tennis_classification [of ?ps ?ts] h1 h2
  have "relevantPosts (fallbackAnalysis ?ps ?ts)
         = filter (\<lambda>post. list_ex (contains_label (message post)) ?ts) ?ps"
    by blast
  then have r: "relevantPosts (fallbackAnalysis ?ps ?ts)
     = [sample_post ''p3'' ''Table Tennis tonight?'', sample_post ''p4'' ''Chess or TABLE TENNIS?'']"
    using f by simp
  show ?thesis
    using h1 h2 f r l t by (intro conjI)
qed

section \<open>The scheduler\<close>

lemma runNow_skips:
  "isRunning s \<Longrightarrow> runNow callback (s, w) = ((s, w), 0, Inr ())"
  by (simp add: runNow_def runNow_begin_def)

lemma tick_skips:
  "isRunning s \<Longrightarrow> tick callback (s, w) = ((s, w), 0, Inr ())"
  by (simp add: tick_def tick_begin_def)

lemma step_skips:
  "isRunning s \<Longrightarrow> step (s, n) RunNow = (s, n) \<and> step (s, n) Tick = (s, n)"
  by (simp add: runNow_begin_def tick_begin_def)

text \<open>
  C4.  While the in-flight flag is set, a call of \<open>runNow\<close> and a tick of the task call
  the callback zero times and return the scheduler and the callback's object (the
  monitor: processed posts, posted messages) as they were, with a fulfilled promise.
  Nothing is kept of the skipped invocation: every later trace of events runs from the
  same state as if it had not happened.
\<close>

theorem in_flight_invocation_is_skipped:
  "isRunning s \<Longrightarrow>
     runNow callback (s, w) = ((s, w), 0, Inr ())
   \<and> tick callback (s, w) = ((s, w), 0, Inr ())
   \<and> run_events (step (s, n) RunNow) evs = run_events (s, n) evs
   \<and> run_events (step (s, n) Tick) evs = run_events (s, n) evs"
proof -
  assume r: "isRunning s"
  have a: "runNow callback (s, w) = ((s, w), 0, Inr ())"
    using r by (rule runNow_skips)
  have b: "tick callback (s, w) = ((s, w), 0, Inr ())"
    using r by (rule tick_skips)
  have c: "step (s, n) RunNow = (s, n)" and d: "step (s, n) Tick = (s, n)"
    using step_skips [OF r] by simp_all
  show ?thesis
    by (simp only: a b c d)
qed

theorem in_flight_invocation_is_skipped_witness:
  "isRunning (fst (runNow_begin idle))
   \<and> runNow failing_callback (fst (runNow_begin idle), [''seen''])
       = ((fst (runNow_begin idle), [''seen'']), 0, Inr ())
   \<and> tick failing_callback (fst (runNow_begin idle), [''seen''])
       = ((fst (runNow_begin idle), [''seen'']), 0, Inr ())
   \<and> runNow (monitoring_callback (\<lambda>i. sample_env [sample_post ''p1'' ''table tennis?'']) (\<lambda>i. sample_notify))
         (fst (runNow_begin idle),
          new_TopicMonitor (sample_config 3 True None) (DEFAULT_STATE ''t0'') sample_parse Absent)
       = ((fst (runNow_begin idle),
           new_TopicMonitor (sample_config 3 True None) (DEFAULT_STATE ''t0'') sample_parse Absent), 0, Inr ())
   \<and> run_events (idle, 0) [RunNow, RunNow, Tick, Settle (Inr ()), Tick] = (idle\<lparr>isRunning := True\<rparr>, 2)"
proof -
  have h: "isRunning (fst (runNow_begin idle))"
    by (simp add: runNow_begin_def idle_def)
  have t: "run_events (idle, 0) [RunNow, RunNow, Tick, Settle (Inr ()), Tick] = (idle\<lparr>isRunning := True\<rparr>, 2)"
    by (simp add: run_events_def runNow_begin_def tick_begin_def runNow_end_def idle_def)
  from in_flight_invocation_is_skipped [OF h, of failing_callback "[''seen'']" 0 "[]"]
    in_flight_invocation_is_skipped [OF h,
      of "monitoring_callback (\<lambda>i. sample_env [sample_post ''p1'' ''table tennis?'']) (\<lambda>i. sample_notify)"
         "new_TopicMonitor (sample_config 3 True None) (DEFAULT_STATE ''t0'') sample_parse Absent" 0 "[]"]
  show ?thesis using h t by simp
qed

lemma runNow_fulfilled: "snd (snd (runNow callback sw)) = Inr ()"
  by (auto simp: runNow_def runNow_begin_def runNow_end_def split: prod.splits sum.splits bool.splits)

lemma tick_fulfilled: "snd (snd (tick callback sw)) = Inr ()"
  by (auto simp: tick_def tick_begin_def tick_end_def split: prod.splits sum.splits bool.splits)

lemma runNow_clears:
  "\<not> isRunning s \<Longrightarrow> \<not> isRunning (fst (fst (runNow callback (s, w)))) \<and> fst (snd (runNow callback (s, w))) = 1"
  by (auto simp: runNow_def runNow_begin_def runNow_end_def split: prod.splits)

lemma tick_clears:
  "\<not> isRunning s \<Longrightarrow> \<not> isRunning (fst (fst (tick callback (s, w)))) \<and> fst (snd (tick callback (s, w))) = 1"
  by (auto simp: tick_def tick_begin_def tick_end_def split: prod.splits)

text \<open>
  C5.  Whatever the callback does, fulfil or reject, the promise of \<open>runNow\<close> and of the
  tick handler is fulfilled: no error leaves the scheduler.  An invocation that found
  the flag clear has called the callback once and leaves the flag clear; the part of an
  invocation that runs after the callback has settled clears the flag for either
  outcome.  The callback of the monitor, \<open>runMonitoring\<close>, fulfils its own promise.
\<close>

theorem no_error_leaves_the_scheduler:
  "snd (snd (runNow callback (s, w))) = Inr ()
   \<and> snd (snd (tick callback (s, w))) = Inr ()
   \<and> (\<not> isRunning s \<longrightarrow>
         \<not> isRunning (fst (fst (runNow callback (s, w)))) \<and> fst (snd (runNow callback (s, w))) = 1
       \<and> \<not> isRunning (fst (fst (tick callback (s, w)))) \<and> fst (snd (tick callback (s, w))) = 1)
   \<and> runNow_end s' settled = (s'\<lparr>isRunning := False\<rparr>, Inr ())
   \<and> tick_end s' settled = (s'\<lparr>isRunning := False\<rparr>, Inr ())
   \<and> snd (runMonitoring envs nenvs m) = Inr ()"
proof (intro conjI impI)
  show "snd (snd (runNow callback (s, w))) = Inr ()" by (rule runNow_fulfilled)
  show "snd (snd (tick callback (s, w))) = Inr ()" by (rule tick_fulfilled)
  show "runNow_end s' settled = (s'\<lparr>isRunning := False\<rparr>, Inr ())"
    by (simp add: runNow_end_def split: sum.splits)
  show "tick_end s' settled = (s'\<lparr>isRunning := False\<rparr>, Inr ())"
    by (simp add: tick_end_def split: sum.splits)
  show "snd (runMonitoring envs nenvs m) = Inr ()"
    by (simp add: runMonitoring_def Let_def split: prod.splits sum.splits)
next
  assume "\<not> isRunning s"
  then show "\<not> isRunning (fst (fst (runNow callback (s, w))))"
    and "fst (snd (runNow callback (s, w))) = 1"
    and "\<not> isRunning (fst (fst (tick callback (s, w))))"
    and "fst (snd (tick callback (s, w))) = 1"
    using runNow_clears [of s callback w] tick_clears [of s callback w] by simp_all
qed

theorem no_error_leaves_the_scheduler_witness:
  "\<not> isRunning idle
   \<and> runNow failing_callback (idle, []) = ((idle, [''ran'']), 1, Inr ())
   \<and> tick failing_callback (idle, []) = ((idle, [''ran'']), 1, Inr ())"
proof -
  have h: "\<not> isRunning idle"
    by (simp add: idle_def)
  have v: "runNow failing_callback (idle, []) = ((idle, [''ran'']), 1, Inr ())"
    by (simp add: runNow_def runNow_begin_def runNow_end_def failing_callback_def idle_def)
  have u: "tick failing_callback (idle, []) = ((idle, [''ran'']), 1, Inr ())"
    by (simp add: tick_def tick_begin_def tick_end_def failing_callback_def idle_def)
  from no_error_leaves_the_scheduler [of failing_callback idle "[]"]
  show ?thesis using h v u by simp
qed

section \<open>The run-now tool answers\<close>

text \<open>
  C10.  With a monitor instance set, \<open>handleRunMonitoring\<close> answers with the success
  object and the fixed message, and without \<open>isError\<close>, for every callback (also one
  that rejects) and every state of the scheduler (also with a cycle in flight, when the
  run is skipped).  Its answer is an error exactly when no instance is set, and then
  it is the ``not enabled'' answer; the \<open>catch\<close> of the handler is never taken.
\<close>

theorem run_now_tool_answers_success:
  "snd (handleRunMonitoring callback (Some mon))
     = \<lparr> content = SuccessPayload True ''Monitoring process completed successfully'', isError = False \<rparr>
   \<and> snd (handleRunMonitoring callback None)
     = \<lparr> content = ErrorPayload ''Monitoring is not enabled or initialized'', isError = True \<rparr>
   \<and> (isError (snd (handleRunMonitoring callback inst)) = (inst = None))"
proof -
  have ok: "\<And>mon. snd (handleRunMonitoring callback (Some mon))
     = \<lparr> content = SuccessPayload True ''Monitoring process completed successfully'', isError = False \<rparr>"
  proof -
    fix mon :: "MonitoringScheduler \<times> 'a"
    obtain mon' k out where r: "runNow callback mon = (mon', k, out)"
      by (cases "runNow callback mon") auto
    have "out = Inr ()"
      using runNow_fulfilled [of callback mon] r by simp
    then show "snd (handleRunMonitoring callback (Some mon))
     = \<lparr> content = SuccessPayload True ''Monitoring process completed successfully'', isError = False \<rparr>"
      using r by (simp add: handleRunMonitoring_def)
  qed
  have no: "snd (handleRunMonitoring callback None)
     = \<lparr> content = ErrorPayload ''Monitoring is not enabled or initialized'', isError = True \<rparr>"
    by (simp add: handleRunMonitoring_def)
  have "isError (snd (handleRunMonitoring callback inst)) = (inst = None)"
    by (cases inst) (simp_all add: ok no)
  then show ?thesis using ok no by simp
qed

theorem run_now_tool_answers_success_witness:
  "handleRunMonitoring failing_callback (Some (idle, []))
     = (Some (idle, [''ran'']),
        \<lparr> content = SuccessPayload True ''Monitoring process completed successfully'', isError = False \<rparr>)
   \<and> handleRunMonitoring failing_callback (Some (idle\<lparr>isRunning := True\<rparr>, []))
     = (Some (idle\<lparr>isRunning := True\<rparr>, []),
        \<lparr> content = SuccessPayload True ''Monitoring process completed successfully'', isError = False \<rparr>)"
proof -
  have a: "fst (handleRunMonitoring failing_callback (Some (idle, []))) = Some (idle, [''ran''])"
    by (simp add: handleRunMonitoring_def runNow_def runNow_begin_def runNow_end_def
        failing_callback_def idle_def)
  have b: "fst (handleRunMonitoring failing_callback (Some (idle\<lparr>isRunning := True\<rparr>, [])))
      = Some (idle\<lparr>isRunning := True\<rparr>, [])"
    by (simp add: handleRunMonitoring_def runNow_def runNow_begin_def)
  from run_now_tool_answers_success [of failing_callback "(idle, [])"]
    run_now_tool_answers_success [of failing_callback "(idle\<lparr>isRunning := True\<rparr>, [])"]
  show ?thesis using a b by (simp add: prod_eq_iff)
qed

section \<open>The alert\<close>

lemma add_lines_concat: "add_lines env msg ps = msg @ concat (map (post_line env) ps)"
  by (induction ps arbitrary: msg) simp_all

text \<open>
  C8 as stated fails in the text of the suffix: for 7 matches the alert does not contain
  ``...and 2 more''; the source writes the ellipsis, a space, ``and 2 more'' and a line
  feed.
\<close>

theorem seven_matches_suffix_text:
  "\<not> js_includes (compose_message sample_notify ''u1'' (sample_result 7)) ''...and 2 more''
   \<and> js_includes (compose_message sample_notify ''u1'' (sample_result 7)) (''... and 2 more'' @ [CHR 0x0A])"
  by code_simp

text \<open>
  C8, amended.  The alert is the header, then one line for each of the first 5 matching
  posts in the order of the result (all of them when there are 5 or fewer), then, when
  there are more than 5, the suffix ``... and N more'' with a line feed, \<open>N\<close> the number
  of matches minus 5; with 5 or fewer matches nothing follows the lines.
\<close>

theorem alert_lists_five_and_counts_the_rest:
  "compose_message env uid result =
     alert_header env uid result
     @ concat (map (post_line env) (take 5 (posts result)))
     @ (if 5 < length (posts result)
        then ''... and '' @ string_of_nat (length (posts result) - 5) @ '' more'' @ [CHR 0x0A]
        else [])
   \<and> length (take 5 (posts result)) = min 5 (length (posts result))
   \<and> (length (posts result) \<le> 5 \<longrightarrow> take 5 (posts result) = posts result)"
  by (simp add: compose_message_def Let_def add_lines_concat min_def)

theorem alert_lists_five_and_counts_the_rest_witness:
  "5 < length (posts (sample_result 7))
   \<and> compose_message sample_notify ''u1'' (sample_result 7) =
       alert_header sample_notify ''u1'' (sample_result 7)
       @ concat (map (post_line sample_notify)
           [sample_post ''p1'' ''ping pong?'', sample_post ''p2'' ''ping pong?'',
            sample_post ''p3'' ''ping pong?'', sample_post ''p4'' ''ping pong?'',
            sample_post ''p5'' ''ping pong?''])
       @ ''... and 2 more'' @ [CHR 0x0A]
   \<and> length (posts (sample_result 3)) \<le> 5
   \<and> compose_message sample_notify ''u1'' (sample_result 3) =
       alert_header sample_notify ''u1'' (sample_result 3)
       @ concat (map (post_line sample_notify)
           [sample_post ''p1'' ''ping pong?'', sample_post ''p2'' ''ping pong?'',
            sample_post ''p3'' ''ping pong?''])"
proof -
  have p7: "posts (sample_result 7) =
      [sample_post ''p1'' ''ping pong?'', sample_post ''p2'' ''ping pong?'',
       sample_post ''p3'' ''ping pong?'', sample_post ''p4'' ''ping pong?'',
       sample_post ''p5'' ''ping pong?'', sample_post ''p6'' ''ping pong?'',
       sample_post ''p7'' ''ping pong?'']"
    by code_simp
  have p3: "posts (sample_result 3) =
      [sample_post ''p1'' ''ping pong?'', sample_post ''p2'' ''ping pong?'',
       sample_post ''p3'' ''ping pong?'']"
    by code_simp
  have "string_of_nat 2 = ''2''"
    by code_simp
  then have two: "string_of_nat (Suc (Suc 0)) = ''2''"
    by (simp add: numeral_2_eq_2)
  from alert_lists_five_and_counts_the_rest [of sample_notify "''u1''" "sample_result 7"]
    alert_lists_five_and_counts_the_rest [of sample_notify "''u1''" "sample_result 3"]
  show ?thesis
    unfolding p7 p3 by (simp add: two)
qed

section \<open>The tie-break of the primary policy\<close>







lemma push_topics_proto:
  "list_ex proto_member ts \<Longrightarrow> push_topics al pid ts = Inl TypeError"
  by (induction ts arbitrary: al) auto



lemma tie_break_proto:
  "list_ex proto_member ts \<Longrightarrow> filter (\<lambda>post. post_id post \<in> set ids) ps \<noteq> []
     \<Longrightarrow> tie_break al ps ts ids = Inl TypeError"
  by (induction ps arbitrary: al) (auto simp: push_topics_proto)






lemma entry_iff: "distinct (map fst al) \<Longrightarrow> (t, ids) \<in> set al \<longleftrightarrow> map_of al t = Some ids"
  by simp






text \<open>
  With a label that is a member name of \<^verbatim>\<open>Object.prototype\<close> the tie-break throws at
  the first found candidate and the result of the fallback is returned; here it matches
  nothing.
\<close>

lemma tie_break_with_prototype_label:
  "analyzePostsWithLLM (Some sample_llm) (replying ''Relevant: \"aaaaaaaaaaaaaaaaaaaaaaaaaa\"'')
        [sample_post ''aaaaaaaaaaaaaaaaaaaaaaaaaa'' ''hello''] [''chess'', ''constructor'']
    = \<lparr> relevantPosts = [], llmTopics = [] \<rparr>"
  by code_simp

end
